theory Spec2Isabelle
  imports Complex_Main "HOL-Library.Multiset"
begin

section \<open>Data model (types.ts, constants.ts)\<close>

text \<open>
  The repository holds two revisions of the game component \<^verbatim>\<open>App.tsx\<close>:
  \<^verbatim>\<open>src/unnamed/part_000\<close> (with \<^verbatim>\<open>src/constants.ts\<close>) and
  \<^verbatim>\<open>src/unnamed/part_001\<close> (with the constants of \<^verbatim>\<open>src/unnamed/part_002\<close>).
  A definition that embeds a function of part_000 carries the suffix \<open>0\<close>, one that
  embeds a function of part_001 the suffix \<open>1\<close>.

  JavaScript numbers that hold tile coordinates, hit points and counters are integers
  (\<open>int\<close>); \<^verbatim>\<open>Math.floor(a / b)\<close> on such numbers is \<open>a div b\<close>. Each call of
  \<^verbatim>\<open>Math.random()\<close> reads the next element of a stream of reals.

  A handler is modelled as a function from the component's state to the state that
  results once the handler and the timeouts it has scheduled have run, with no other
  input in between. Where a handler reads the \<^verbatim>\<open>gameState\<close> of the render it was
  created in while a queued update reads the latest state, the two are kept apart (the
  former is called \<open>closure\<close>, the latter \<open>prev\<close>). Messages, sounds and the
  flash effects are left out; of a damage number only the call of \<^verbatim>\<open>Math.random()\<close>
  that makes its id is kept. \<^verbatim>\<open>handleEnemyDefeated\<close> (experience, the level-up
  prompt and, in part_001, the split of a slime) is left out too: the state updates of
  \<^verbatim>\<open>processTurn\<close> list the enemies they hand to it, and the states are those of
  turns in which no slime splits.
\<close>

datatype Direction = ArrowUp | ArrowDown | ArrowLeft | ArrowRight
datatype PlayerClass = Knight | Ranger | Sapper
datatype TileType = FLOOR | WALL
datatype EnemyType = GOBLIN | SLIME | SKELETON | SPIDER | SLIME_MINI
datatype ItemType = POTION | GOLD | ARROWS | BOMB | ANTIDOTE
datatype HazardType = SPIKES | FIRE | PIT | POISON

text \<open>\<^verbatim>\<open>interface Position { x: number; y: number; }\<close>; the interfaces that extend it
  are record extensions.\<close>

record Position =
  pos_x :: int
  pos_y :: int

record Player = Position +
  hp :: int
  maxHp :: int
  attack :: int
  arrows :: int
  maxArrows :: int
  bombs :: int
  maxBombs :: int
  potions :: int
  antidotes :: int
  gold :: int
  level :: int
  xp :: int
  xpToNextLevel :: int
  playerClass :: PlayerClass
  lastMoveDirection :: "Direction option"
  isPoisoned :: bool
  poisonStepCounter :: int
  meleeDamageBonus :: int
  arrowDamageBonus :: int
  bombDamageBonus :: int
  corruption :: int
  activeAugments :: "string list"
  stepsTaken :: int

record Enemy = Position +
  enemy_id :: int
  enemy_type :: EnemyType
  enemy_hp :: int
  enemy_attack :: int
  isHit :: bool

record Item = Position +
  item_type :: ItemType

record Hazard = Position +
  hazard_type :: HazardType

record Bomb = Position +
  bomb_id :: int
  stepsRemaining :: int

record ArrowProjectile = Position +
  visible :: bool
  direction :: Direction

text \<open>\<^verbatim>\<open>GameState\<close> without its presentation-only members (doodads, damageNumbers,
  theme). The members \<^verbatim>\<open>map\<close>, \<^verbatim>\<open>bombs\<close>, \<^verbatim>\<open>level\<close> and \<^verbatim>\<open>exit\<close> are
  \<open>gs_map\<close>, \<open>gs_bombs\<close>, \<open>gs_level\<close> and \<open>gs_exit\<close>.\<close>

record GameState =
  gs_map :: "TileType list list"
  player :: Player
  enemies :: "Enemy list"
  items :: "Item list"
  gs_exit :: "Position option"
  wizard :: "Position option"
  hazards :: "Hazard list"
  gs_bombs :: "Bomb list"
  activeBlasts :: "Position list"
  pickedUpItems :: "string set"
  gs_level :: int
  camera :: Position
  altars :: "Position list"

text \<open>The React state of the component: the game state, the modal flags,
  \<^verbatim>\<open>animatingRef.current\<close> and the projectile in flight.\<close>

record App =
  gameState :: GameState
  isGameOver :: bool
  isPaused :: bool
  animating :: bool
  isInspecting :: bool
  isLevelingUp :: bool
  isShopping :: bool
  isTransitioning :: bool
  arrowProjectile :: "ArrowProjectile option"

text \<open>A \<^verbatim>\<open>Partial<Player>\<close> object literal is the list of its property
  assignments in the order they are written; a spread \<^verbatim>\<open>...o\<close> inside a literal
  contributes the assignments of \<open>o\<close> at that place, and a later assignment of a
  property replaces an earlier one.\<close>

datatype PlayerField =
    Set_x int | Set_y int | Set_hp int | Set_maxHp int | Set_attack int
  | Set_arrows int | Set_maxArrows int | Set_bombs int | Set_maxBombs int
  | Set_potions int | Set_antidotes int | Set_gold int | Set_level int | Set_xp int
  | Set_xpToNextLevel int | Set_playerClass PlayerClass
  | Set_lastMoveDirection "Direction option" | Set_isPoisoned bool
  | Set_poisonStepCounter int | Set_meleeDamageBonus int | Set_arrowDamageBonus int
  | Set_bombDamageBonus int | Set_corruption int | Set_activeAugments "string list"
  | Set_stepsTaken int

fun assign :: "PlayerField \<Rightarrow> Player \<Rightarrow> Player" where
  "assign (Set_x v) p = p\<lparr>pos_x := v\<rparr>"
| "assign (Set_y v) p = p\<lparr>pos_y := v\<rparr>"
| "assign (Set_hp v) p = p\<lparr>hp := v\<rparr>"
| "assign (Set_maxHp v) p = p\<lparr>maxHp := v\<rparr>"
| "assign (Set_attack v) p = p\<lparr>attack := v\<rparr>"
| "assign (Set_arrows v) p = p\<lparr>arrows := v\<rparr>"
| "assign (Set_maxArrows v) p = p\<lparr>maxArrows := v\<rparr>"
| "assign (Set_bombs v) p = p\<lparr>bombs := v\<rparr>"
| "assign (Set_maxBombs v) p = p\<lparr>maxBombs := v\<rparr>"
| "assign (Set_potions v) p = p\<lparr>potions := v\<rparr>"
| "assign (Set_antidotes v) p = p\<lparr>antidotes := v\<rparr>"
| "assign (Set_gold v) p = p\<lparr>gold := v\<rparr>"
| "assign (Set_level v) p = p\<lparr>level := v\<rparr>"
| "assign (Set_xp v) p = p\<lparr>xp := v\<rparr>"
| "assign (Set_xpToNextLevel v) p = p\<lparr>xpToNextLevel := v\<rparr>"
| "assign (Set_playerClass v) p = p\<lparr>playerClass := v\<rparr>"
| "assign (Set_lastMoveDirection v) p = p\<lparr>lastMoveDirection := v\<rparr>"
| "assign (Set_isPoisoned v) p = p\<lparr>isPoisoned := v\<rparr>"
| "assign (Set_poisonStepCounter v) p = p\<lparr>poisonStepCounter := v\<rparr>"
| "assign (Set_meleeDamageBonus v) p = p\<lparr>meleeDamageBonus := v\<rparr>"
| "assign (Set_arrowDamageBonus v) p = p\<lparr>arrowDamageBonus := v\<rparr>"
| "assign (Set_bombDamageBonus v) p = p\<lparr>bombDamageBonus := v\<rparr>"
| "assign (Set_corruption v) p = p\<lparr>corruption := v\<rparr>"
| "assign (Set_activeAugments v) p = p\<lparr>activeAugments := v\<rparr>"
| "assign (Set_stepsTaken v) p = p\<lparr>stepsTaken := v\<rparr>"

text \<open>\<^verbatim>\<open>{ ...base, ...override }\<close>: the assignments of the override, in order, on
  top of the base object.\<close>

fun spread :: "PlayerField list \<Rightarrow> Player \<Rightarrow> Player" where
  "spread [] p = p"
| "spread (f # fs) p = spread fs (assign f p)"

subsection \<open>Constants\<close>

definition VIEWPORT_WIDTH :: int where "VIEWPORT_WIDTH = 13"
definition VIEWPORT_HEIGHT :: int where "VIEWPORT_HEIGHT = 20"
definition WORLD_SCREENS_W :: int where "WORLD_SCREENS_W = 3"
definition WORLD_SCREENS_H :: int where "WORLD_SCREENS_H = 3"
definition POISON_TICK_STEPS :: int where "POISON_TICK_STEPS = 3"
definition POISON_DAMAGE :: int where "POISON_DAMAGE = 5"

text \<open>constants.ts (part_000): fuse 6, range 6. part_002 (part_001): fuse 4, range 2.\<close>

definition BOMB_FUSE_STEPS0 :: int where "BOMB_FUSE_STEPS0 = 6"
definition BOMB_RANGE0 :: int where "BOMB_RANGE0 = 6"
definition BOMB_FUSE_STEPS1 :: int where "BOMB_FUSE_STEPS1 = 4"
definition BOMB_RANGE1 :: int where "BOMB_RANGE1 = 2"

text \<open>\<^verbatim>\<open>PLAYER_CLASSES[c].stats\<close> of constants.ts, property by property.\<close>

fun PLAYER_CLASSES0 :: "PlayerClass \<Rightarrow> PlayerField list" where
  "PLAYER_CLASSES0 Knight =
     [Set_maxHp 120, Set_hp 120, Set_attack 12, Set_gold 0,
      Set_arrows 0, Set_maxArrows 3, Set_bombs 0, Set_maxBombs 3, Set_potions 1,
      Set_antidotes 0,
      Set_meleeDamageBonus 2, Set_arrowDamageBonus 0, Set_bombDamageBonus (- 15)]"
| "PLAYER_CLASSES0 Ranger =
     [Set_maxHp 100, Set_hp 100, Set_attack 10, Set_gold 0,
      Set_arrows 6, Set_maxArrows 9, Set_bombs 0, Set_maxBombs 3, Set_potions 0,
      Set_antidotes 1,
      Set_meleeDamageBonus (- 2), Set_arrowDamageBonus 5, Set_bombDamageBonus (- 10)]"
| "PLAYER_CLASSES0 Sapper =
     [Set_maxHp 100, Set_hp 100, Set_attack 10, Set_gold 10,
      Set_arrows 0, Set_maxArrows 3, Set_bombs 3, Set_maxBombs 5, Set_potions 1,
      Set_antidotes 0,
      Set_meleeDamageBonus 0, Set_arrowDamageBonus (- 5), Set_bombDamageBonus 25]"

section \<open>Starting and restarting a run\<close>

text \<open>\<^verbatim>\<open>newGame(level, playerOverride?)\<close>, the same in both revisions. The dungeon
  generator (\<^verbatim>\<open>services/dungeonService\<close>) is not part of the sources; it is the
  parameter \<open>generateDungeon\<close>.\<close>

definition newGame :: "(int \<Rightarrow> GameState) \<Rightarrow> int \<Rightarrow> PlayerField list option \<Rightarrow> App \<Rightarrow> App" where
  "newGame generateDungeon lvl playerOverride app =
     (let dungeon = generateDungeon lvl;
          playerStats = spread (case playerOverride of None \<Rightarrow> [] | Some ov \<Rightarrow> ov)
                               (player dungeon)
      in app\<lparr>gameState := dungeon\<lparr>gs_level := lvl, player := playerStats\<rparr>,
             isGameOver := False, isPaused := False\<rparr>)"

text \<open>\<^verbatim>\<open>restartGame\<close>. The table \<^verbatim>\<open>PLAYER_CLASSES\<close> is that of constants.ts in
  part_000; part_001 imports it from \<^verbatim>\<open>data/player_classes\<close>, which is not part of
  the sources, so there it is a parameter.\<close>

definition retainedPlayer :: "(PlayerClass \<Rightarrow> PlayerField list) \<Rightarrow> Player \<Rightarrow> PlayerField list" where
  "retainedPlayer classes p =
     (let classDefaults = classes (playerClass p)
      in [Set_playerClass (playerClass p), Set_level (level p), Set_maxHp (maxHp p),
          Set_attack (attack p), Set_gold (gold p div 2), Set_xp 0]
         @ classDefaults
         @ [Set_corruption (corruption p), Set_activeAugments (activeAugments p)])"

definition restartGame0 :: "(int \<Rightarrow> GameState) \<Rightarrow> App \<Rightarrow> App" where
  "restartGame0 generateDungeon app =
     newGame generateDungeon 1
       (Some (retainedPlayer PLAYER_CLASSES0 (player (gameState app)))) app"

definition restartGame1 ::
  "(PlayerClass \<Rightarrow> PlayerField list) \<Rightarrow> (int \<Rightarrow> GameState) \<Rightarrow> App \<Rightarrow> App" where
  "restartGame1 PLAYER_CLASSES generateDungeon app =
     newGame generateDungeon 1
       (Some (retainedPlayer PLAYER_CLASSES (player (gameState app)))) app"

section \<open>Helpers shared by both revisions\<close>

text \<open>The stream of values returned by successive calls of \<^verbatim>\<open>Math.random()\<close>.\<close>

type_synonym rng = "nat \<Rightarrow> real"

definition rtl :: "rng \<Rightarrow> rng" where
  "rtl r = (\<lambda>n. r (Suc n))"

text \<open>\<^verbatim>\<open>createDamageNumber(x, y, amount, type)\<close>: the number shown is presentation,
  but its id is \<^verbatim>\<open>Date.now() + Math.random()\<close>, so every call takes one number from
  the stream.\<close>

definition createDamageNumber :: "rng \<Rightarrow> rng" where
  "createDamageNumber r = rtl r"

text \<open>\<^verbatim>\<open>map[y]\<close>: \<^verbatim>\<open>undefined\<close> (here \<open>None\<close>) outside the array.\<close>

definition rowAt :: "TileType list list \<Rightarrow> int \<Rightarrow> TileType list option" where
  "rowAt m yy = (if 0 \<le> yy \<and> yy < int (length m) then Some (m ! nat yy) else None)"

definition cellAt :: "TileType list \<Rightarrow> int \<Rightarrow> TileType option" where
  "cellAt row xx = (if 0 \<le> xx \<and> xx < int (length row) then Some (row ! nat xx) else None)"

text \<open>\<^verbatim>\<open>map[y]?.[x]\<close>\<close>

definition tileAt :: "TileType list list \<Rightarrow> int \<Rightarrow> int \<Rightarrow> TileType option" where
  "tileAt m yy xx = (case rowAt m yy of None \<Rightarrow> None | Some row \<Rightarrow> cellAt row xx)"

text \<open>The target tile of a step in a direction.\<close>

fun stepDir :: "Direction \<Rightarrow> int \<times> int \<Rightarrow> int \<times> int" where
  "stepDir ArrowUp (px, py) = (px, py - 1)"
| "stepDir ArrowDown (px, py) = (px, py + 1)"
| "stepDir ArrowLeft (px, py) = (px - 1, py)"
| "stepDir ArrowRight (px, py) = (px + 1, py)"

text \<open>The template string \<^verbatim>\<open>`${x},${y}`\<close> for integer coordinates.\<close>

fun showNat :: "nat \<Rightarrow> string" where
  "showNat n = (if n < 10 then [''0123456789'' ! n]
                else showNat (n div 10) @ [''0123456789'' ! (n mod 10)])"

declare showNat.simps [simp del]

definition showInt :: "int \<Rightarrow> string" where
  "showInt i = (if i < 0 then CHR ''-'' # showNat (nat (- i)) else showNat (nat i))"

definition itemKey :: "int \<Rightarrow> int \<Rightarrow> string" where
  "itemKey ix iy = showInt ix @ '','' @ showInt iy"

definition atPos :: "int \<Rightarrow> int \<Rightarrow> 'a Position_scheme \<Rightarrow> bool" where
  "atPos px py e = (pos_x e = px \<and> pos_y e = py)"

text \<open>\<^verbatim>\<open>o?.x === px && o?.y === py\<close> for a position that may be \<^verbatim>\<open>null\<close>.\<close>

definition optAt :: "Position option \<Rightarrow> int \<Rightarrow> int \<Rightarrow> bool" where
  "optAt ow px py = (case ow of None \<Rightarrow> False | Some w \<Rightarrow> atPos px py w)"

text \<open>\<^verbatim>\<open>xs.findIndex(P)\<close>, with \<open>None\<close> for \<^verbatim>\<open>-1\<close>.\<close>

fun findIndex :: "('a \<Rightarrow> bool) \<Rightarrow> 'a list \<Rightarrow> nat option" where
  "findIndex P [] = None"
| "findIndex P (a # as) =
     (if P a then Some 0 else (case findIndex P as of None \<Rightarrow> None | Some i \<Rightarrow> Some (Suc i)))"

text \<open>What a resolver asks the component to do once the state update is committed.\<close>

datatype FollowUp = NextLevel | EnemyTurn | Unlock

section \<open>part_000: the enemy turn\<close>

text \<open>The destination an enemy picks: the axis with the larger distance, a coin flip on
  a tie off the player's tile.\<close>

definition chase0 :: "Player \<Rightarrow> Enemy \<Rightarrow> rng \<Rightarrow> (int \<times> int) \<times> rng" where
  "chase0 pl enemy r =
     (let dx = pos_x pl - pos_x enemy; dy = pos_y pl - pos_y enemy
      in if \<bar>dx\<bar> > \<bar>dy\<bar> then ((pos_x enemy + sgn dx, pos_y enemy), r)
         else if \<bar>dy\<bar> > \<bar>dx\<bar> then ((pos_x enemy, pos_y enemy + sgn dy), r)
         else if dx = 0 then ((pos_x enemy, pos_y enemy), r)
         else if r 0 > 1 / 2 then ((pos_x enemy + sgn dx, pos_y enemy), rtl r)
         else ((pos_x enemy, pos_y enemy + sgn dy), rtl r))"

text \<open>The attack of an enemy that has reached the player: the damage (\<open>rnd\<close> is the
  random number drawn for the bonus; the corruption bonus is the placeholder 0) and the
  spider's poison.\<close>

definition enemyHits0 :: "Enemy \<Rightarrow> real \<Rightarrow> Player \<Rightarrow> Player" where
  "enemyHits0 enemy rnd newPlayerState =
     (let corruptionBonus = 0;
          enemyDamage = enemy_attack enemy + corruptionBonus + \<lfloor>rnd * 3\<rfloor>;
          p1 = newPlayerState\<lparr>hp := hp newPlayerState - enemyDamage\<rparr>
      in if enemy_type enemy = SPIDER \<and> \<not> isPoisoned p1
         then p1\<lparr>isPoisoned := True, poisonStepCounter := 0\<rparr> else p1)"

text \<open>The move of an enemy to its destination, unless that tile is a wall or held by
  another living enemy of the state the update started from.\<close>

definition enemyAdvance0 :: "GameState \<Rightarrow> Enemy \<Rightarrow> int \<Rightarrow> int \<Rightarrow> Enemy" where
  "enemyAdvance0 prev enemy newEx newEy =
     (let isWall = (tileAt (gs_map prev) newEy newEx = Some WALL);
          isOccupied = list_ex (\<lambda>e. enemy_id e \<noteq> enemy_id enemy \<and> pos_x e = newEx
                                     \<and> pos_y e = newEy \<and> enemy_hp e > 0) (enemies prev)
      in if \<not> isWall \<and> \<not> isOccupied then enemy\<lparr>pos_x := newEx, pos_y := newEy\<rparr> else enemy)"

text \<open>The body of \<^verbatim>\<open>enemies.map(enemy => ...)\<close> in \<^verbatim>\<open>processEnemyTurn\<close>. The
  accumulator is \<^verbatim>\<open>newPlayerState\<close>, \<^verbatim>\<open>playerWasHit\<close> and the random stream
  (an attack draws the damage bonus and then shows a damage number); \<open>prev\<close> is the
  state the update started from.\<close>

definition enemyStep0 ::
  "GameState \<Rightarrow> Enemy \<Rightarrow> Player \<times> bool \<times> rng \<Rightarrow> Enemy \<times> (Player \<times> bool \<times> rng)" where
  "enemyStep0 prev enemy acc =
     (case acc of (newPlayerState, playerWasHit, r) \<Rightarrow>
      let pl = player prev in
      if enemy_hp enemy \<le> 0 then (enemy, acc)
      else if \<not> (pos_x pl div VIEWPORT_WIDTH = pos_x enemy div VIEWPORT_WIDTH
                  \<and> pos_y pl div VIEWPORT_HEIGHT = pos_y enemy div VIEWPORT_HEIGHT)
      then (enemy, acc)
      else
        (case chase0 pl enemy r of ((newEx, newEy), r1) \<Rightarrow>
           if newEx = pos_x pl \<and> newEy = pos_y pl
           then (enemy, (enemyHits0 enemy (r1 0) newPlayerState, True,
                         createDamageNumber (rtl r1)))
           else (enemyAdvance0 prev enemy newEx newEy, (newPlayerState, playerWasHit, r1))))"

fun enemiesMap0 ::
  "GameState \<Rightarrow> Enemy list \<Rightarrow> Player \<times> bool \<times> rng \<Rightarrow> Enemy list \<times> (Player \<times> bool \<times> rng)" where
  "enemiesMap0 prev [] acc = ([], acc)"
| "enemiesMap0 prev (e # es) acc =
     (case enemyStep0 prev e acc of (e', acc') \<Rightarrow>
        (case enemiesMap0 prev es acc' of (es', acc'') \<Rightarrow> (e' # es', acc'')))"

text \<open>\<^verbatim>\<open>processEnemyTurn\<close>: the state update, the game-over flag, and the release of
  \<^verbatim>\<open>animatingRef\<close> that its timeout performs.\<close>

definition processEnemyTurn0 :: "rng \<Rightarrow> App \<Rightarrow> App \<times> rng" where
  "processEnemyTurn0 r app =
     (let prev = gameState app in
      case enemiesMap0 prev (enemies prev) (player prev, False, r) of
        (updatedEnemies, newPlayerState, playerWasHit, r') \<Rightarrow>
          (app\<lparr>gameState := prev\<lparr>enemies := updatedEnemies, player := newPlayerState\<rparr>,
               isGameOver := (if hp newPlayerState \<le> 0 \<and> hp (player prev) > 0 then True
                              else isGameOver app),
               animating := False\<rparr>, r'))"

section \<open>part_000: the turn after a move\<close>

text \<open>The block \<^verbatim>\<open>// Poison Tick\<close> of \<^verbatim>\<open>processTurn\<close>.\<close>

definition poisonTick0 :: "Player \<Rightarrow> Player" where
  "poisonTick0 p =
     (if isPoisoned p then
        (let p1 = p\<lparr>poisonStepCounter := poisonStepCounter p + 1\<rparr>
         in if poisonStepCounter p1 \<ge> POISON_TICK_STEPS
            then p1\<lparr>poisonStepCounter := 0, hp := hp p1 - POISON_DAMAGE\<rparr>
            else p1)
      else p)"

text \<open>The fuses: every bomb loses a step; those at or below zero explode, the others
  stay.\<close>

definition tickBombs :: "Bomb list \<Rightarrow> Bomb list" where
  "tickBombs bs = map (\<lambda>b. b\<lparr>stepsRemaining := stepsRemaining b - 1\<rparr>) bs"

definition explodingBombs0 :: "Bomb list \<Rightarrow> Bomb list" where
  "explodingBombs0 bs = filter (\<lambda>b. stepsRemaining b \<le> 0) (tickBombs bs)"

definition remainingBombs0 :: "Bomb list \<Rightarrow> Bomb list" where
  "remainingBombs0 bs = filter (\<lambda>b. stepsRemaining b > 0) (tickBombs bs)"

definition inBlast :: "Position list \<Rightarrow> int \<Rightarrow> int \<Rightarrow> bool" where
  "inBlast blasts px py = list_ex (atPos px py) blasts"

text \<open>\<^verbatim>\<open>if (!blasts.some(p => p.x === tx && p.y === ty)) blasts.push({x: tx, y: ty})\<close>\<close>

definition pushNew :: "int \<Rightarrow> int \<Rightarrow> Position list \<Rightarrow> Position list" where
  "pushNew tx ty blasts =
     (if inBlast blasts tx ty then blasts else blasts @ [\<lparr>pos_x = tx, pos_y = ty\<rparr>])"

text \<open>One arm of the blast: the inner loop \<^verbatim>\<open>for (j = 1; j <= BOMB_RANGE; j++)\<close>
  with its \<^verbatim>\<open>break\<close> at a wall; \<open>n\<close> counts the iterations left.\<close>

fun blastArm0 ::
  "TileType list list \<Rightarrow> int \<times> int \<Rightarrow> int \<times> int \<Rightarrow> nat \<Rightarrow> int \<Rightarrow> Position list \<Rightarrow> Position list" where
  "blastArm0 m (bx, byy) (ux, uy) 0 j blasts = blasts"
| "blastArm0 m (bx, byy) (ux, uy) (Suc n) j blasts =
     (let tileX = bx + ux * j; tileY = byy + uy * j
      in if tileAt m tileY tileX = Some WALL then blasts
         else blastArm0 m (bx, byy) (ux, uy) n (j + 1) (pushNew tileX tileY blasts))"

definition bombBlast0 :: "TileType list list \<Rightarrow> Bomb \<Rightarrow> Position list \<Rightarrow> Position list" where
  "bombBlast0 m bomb blasts =
     (let c = (pos_x bomb, pos_y bomb); n = nat BOMB_RANGE0;
          b0 = blastArm0 m c (1, 0) n 1 blasts;
          b1 = blastArm0 m c (- 1, 0) n 1 b0;
          b2 = blastArm0 m c (0, 1) n 1 b1;
          b3 = blastArm0 m c (0, - 1) n 1 b2
      in pushNew (pos_x bomb) (pos_y bomb) b3)"

text \<open>The \<^verbatim>\<open>switch (itemAtPos.type)\<close> of the pickup.\<close>

fun pickup0 :: "int \<Rightarrow> ItemType \<Rightarrow> Player \<Rightarrow> Player" where
  "pickup0 lvl POTION p =
     (if hp p < maxHp p then p\<lparr>hp := min (maxHp p) (hp p + 20)\<rparr>
      else p\<lparr>potions := min 3 (potions p + 1)\<rparr>)"
| "pickup0 lvl GOLD p = p\<lparr>gold := gold p + (5 + lvl)\<rparr>"
| "pickup0 lvl ARROWS p = p\<lparr>arrows := min (maxArrows p) (arrows p + 3)\<rparr>"
| "pickup0 lvl BOMB p = p\<lparr>bombs := min (maxBombs p) (bombs p + 1)\<rparr>"
| "pickup0 lvl ANTIDOTE p = p\<lparr>antidotes := min 3 (antidotes p + 1)\<rparr>"

text \<open>The \<^verbatim>\<open>switch (hazardAtPos.type)\<close>: the damage and the instant-death flag.
  \<open>POISON\<close> is not a member of this revision's enumeration; the switch has no case for
  it.\<close>

fun hazardEffect0 :: "int \<Rightarrow> HazardType \<Rightarrow> int \<times> bool" where
  "hazardEffect0 lvl PIT = (0, True)"
| "hazardEffect0 lvl SPIKES = (5 + lvl, False)"
| "hazardEffect0 lvl FIRE = (8 + lvl, False)"
| "hazardEffect0 lvl POISON = (0, False)"

definition hazardStep0 :: "int \<Rightarrow> HazardType \<Rightarrow> Player \<Rightarrow> Player" where
  "hazardStep0 lvl t p =
     (case hazardEffect0 lvl t of (damage, isInstantDeath) \<Rightarrow>
        (let p1 = p\<lparr>hp := hp p - damage\<rparr> in if isInstantDeath then p1\<lparr>hp := 0\<rparr> else p1))"

text \<open>What the state update of \<^verbatim>\<open>processTurn\<close> produces: the state it returns, the
  flags it leaves for the timeout, and the calls it makes on the way (the shop, the
  game-over flag, the bombs that exploded, the enemies handed to
  \<^verbatim>\<open>handleEnemyDefeated\<close>, and how many damage numbers it showed: one for a
  poison tick, one for each enemy struck by a blast, one for the player struck by a
  blast, one for a hazard that does damage).\<close>

record TurnOutcome =
  finalState :: GameState
  shouldExit :: bool
  shouldEnemiesMove :: bool
  openShop :: bool
  died :: bool
  exploded :: "Bomb list"
  defeated :: "Enemy list"
  numbers :: nat

definition processTurnUpdate0 :: "int \<Rightarrow> int \<Rightarrow> GameState \<Rightarrow> TurnOutcome" where
  "processTurnUpdate0 px py prev =
     (let p0 = (player prev)\<lparr>pos_x := px, pos_y := py\<rparr>;
          burns = (isPoisoned p0 \<and> poisonStepCounter p0 + 1 \<ge> POISON_TICK_STEPS);
          p1 = poisonTick0 p0;
          explodingBombs = explodingBombs0 (gs_bombs prev);
          newBombs = remainingBombs0 (gs_bombs prev);
          newActiveBlasts = fold (bombBlast0 (gs_map prev)) explodingBombs [];
          bombDamage = 50 + bombDamageBonus p1;
          struck = (\<lambda>e. explodingBombs \<noteq> [] \<and> enemy_hp e > 0
                         \<and> inBlast newActiveBlasts (pos_x e) (pos_y e));
          newEnemies = map (\<lambda>e. if struck e
                                 then e\<lparr>enemy_hp := enemy_hp e - bombDamage, isHit := True\<rparr>
                                 else e) (enemies prev);
          playerStruck = (explodingBombs \<noteq> [] \<and> inBlast newActiveBlasts (pos_x p1) (pos_y p1));
          p2 = (if playerStruck then p1\<lparr>hp := hp p1 - bombDamage\<rparr> else p1);
          atWizard = optAt (wizard prev) px py;
          atExit = \<not> atWizard \<and> optAt (gs_exit prev) px py;
          interact = \<not> atWizard \<and> \<not> atExit;
          itemAtPos = find (atPos px py) (items prev);
          fresh = (case itemAtPos of None \<Rightarrow> False
                   | Some it \<Rightarrow> interact \<and> itemKey (pos_x it) (pos_y it) \<notin> pickedUpItems prev);
          newPickedUpItems = (case itemAtPos of None \<Rightarrow> pickedUpItems prev
                   | Some it \<Rightarrow> if fresh then insert (itemKey (pos_x it) (pos_y it)) (pickedUpItems prev)
                                else pickedUpItems prev);
          p3 = (case itemAtPos of None \<Rightarrow> p2
                | Some it \<Rightarrow> if fresh then pickup0 (gs_level prev) (item_type it) p2 else p2);
          hazardAtPos = find (atPos px py) (hazards prev);
          p4 = (case hazardAtPos of None \<Rightarrow> p3
                | Some hz \<Rightarrow> if interact then hazardStep0 (gs_level prev) (hazard_type hz) p3 else p3);
          hurts = (case hazardAtPos of None \<Rightarrow> False
                   | Some hz \<Rightarrow> interact \<and> fst (hazardEffect0 (gs_level prev) (hazard_type hz)) > 0);
          dies = (hp p4 \<le> 0 \<and> hp (player prev) > 0);
          p5 = (if dies then p4\<lparr>hp := 0\<rparr> else p4)
      in \<lparr>finalState = prev\<lparr>player := p5, gs_bombs := newBombs,
                               enemies := map (\<lambda>e. e\<lparr>isHit := False\<rparr>) newEnemies,
                               pickedUpItems := newPickedUpItems,
                               activeBlasts := newActiveBlasts\<rparr>,
          shouldExit = atExit,
          shouldEnemiesMove = (interact \<and> \<not> dies),
          openShop = atWizard,
          died = dies,
          exploded = explodingBombs,
          defeated = filter (\<lambda>e. struck e \<and> enemy_hp e - bombDamage \<le> 0) (enemies prev),
          numbers = (if burns then 1 else 0) + length (filter struck (enemies prev))
                    + (if playerStruck then 1 else 0) + (if hurts then 1 else 0)\<rparr>)"

text \<open>\<^verbatim>\<open>processTurn(newPlayerPos)\<close>: nothing while \<^verbatim>\<open>animatingRef\<close> is set; otherwise
  the lock is taken, the update is committed (each damage number it shows takes a
  number from the stream), and the follow-up is what the 150 ms timeout will run.\<close>

definition processTurn0 :: "int \<Rightarrow> int \<Rightarrow> rng \<Rightarrow> App \<Rightarrow> App \<times> FollowUp option \<times> rng" where
  "processTurn0 px py r app =
     (if animating app then (app, None, r)
      else
        (let out = processTurnUpdate0 px py (gameState app)
         in (app\<lparr>gameState := finalState out,
                 animating := True,
                 isShopping := (if openShop out then True else isShopping app),
                 isGameOver := (if died out then True else isGameOver app)\<rparr>,
             Some (if shouldExit out then NextLevel
                   else if shouldEnemiesMove out then EnemyTurn else Unlock),
             (createDamageNumber ^^ numbers out) r)))"

text \<open>All the properties of a player object, as \<^verbatim>\<open>...gameState.player\<close> spreads
  them.\<close>

definition fieldsOf :: "Player \<Rightarrow> PlayerField list" where
  "fieldsOf p =
     [Set_x (pos_x p), Set_y (pos_y p), Set_hp (hp p), Set_maxHp (maxHp p),
      Set_attack (attack p), Set_arrows (arrows p), Set_maxArrows (maxArrows p),
      Set_bombs (bombs p), Set_maxBombs (maxBombs p), Set_potions (potions p),
      Set_antidotes (antidotes p), Set_gold (gold p), Set_level (level p), Set_xp (xp p),
      Set_xpToNextLevel (xpToNextLevel p), Set_playerClass (playerClass p),
      Set_lastMoveDirection (lastMoveDirection p), Set_isPoisoned (isPoisoned p),
      Set_poisonStepCounter (poisonStepCounter p),
      Set_meleeDamageBonus (meleeDamageBonus p), Set_arrowDamageBonus (arrowDamageBonus p),
      Set_bombDamageBonus (bombDamageBonus p), Set_corruption (corruption p),
      Set_activeAugments (activeAugments p), Set_stepsTaken (stepsTaken p)]"

text \<open>\<^verbatim>\<open>handleNextLevel\<close>, once its 400 ms timeout has run. \<open>closure\<close> is the
  \<^verbatim>\<open>gameState\<close> of the render in which the handler was created.\<close>

definition handleNextLevel :: "(int \<Rightarrow> GameState) \<Rightarrow> GameState \<Rightarrow> App \<Rightarrow> App" where
  "handleNextLevel generateDungeon closure app =
     (let newDungeonLevel = gs_level closure + 1;
          retained = fieldsOf (player closure) @ [Set_hp (maxHp (player closure))]
      in (newGame generateDungeon newDungeonLevel (Some retained) app)\<lparr>isTransitioning := False\<rparr>)"

text \<open>The timeouts that follow \<^verbatim>\<open>processTurn\<close> in part_000: the follow-up
  after 150 ms and the clearing of the blast tiles after 200 ms (the new dungeon of a
  level change arrives later and replaces the whole state).\<close>

definition clearBlasts :: "App \<Rightarrow> App" where
  "clearBlasts app = app\<lparr>gameState := (gameState app)\<lparr>activeBlasts := []\<rparr>\<rparr>"

fun followUp0 :: "(int \<Rightarrow> GameState) \<Rightarrow> GameState \<Rightarrow> FollowUp option \<Rightarrow> rng \<Rightarrow> App \<Rightarrow> App \<times> rng" where
  "followUp0 gen closure None r app = (app, r)"
| "followUp0 gen closure (Some NextLevel) r app = (handleNextLevel gen closure app, r)"
| "followUp0 gen closure (Some EnemyTurn) r app =
     (case processEnemyTurn0 r app of (app', r') \<Rightarrow> (clearBlasts app', r'))"
| "followUp0 gen closure (Some Unlock) r app = (clearBlasts (app\<lparr>animating := False\<rparr>), r)"

section \<open>part_000: the input handlers\<close>

text \<open>The guard that opens \<^verbatim>\<open>handleMove\<close> and \<^verbatim>\<open>handleFireArrow\<close>.\<close>

definition inputLocked0 :: "App \<Rightarrow> bool" where
  "inputLocked0 app =
     (isGameOver app \<or> isInspecting app \<or> animating app \<or> arrowProjectile app \<noteq> None
      \<or> isPaused app \<or> isLevelingUp app \<or> isShopping app \<or> isTransitioning app)"

text \<open>The melee branch of \<^verbatim>\<open>handleMove\<close>, with the timeout it schedules. The copies
  \<^verbatim>\<open>newPlayerState\<close> and \<^verbatim>\<open>newEnemiesState\<close> are taken from the handler's own
  \<^verbatim>\<open>gameState\<close> (\<open>closure\<close>). Each of the two blows draws its bonus and then
  shows a damage number.\<close>

definition melee0 :: "GameState \<Rightarrow> Enemy \<Rightarrow> rng \<Rightarrow> App \<Rightarrow> App \<times> rng" where
  "melee0 closure enemyAtPos r app =
     (let pl = player closure;
          playerDamage = attack pl + meleeDamageBonus pl + \<lfloor>r 0 * 5\<rfloor>;
          r1 = createDamageNumber (rtl r);
          enemyIndex = (case findIndex (\<lambda>e. enemy_id e = enemy_id enemyAtPos) (enemies closure) of
                          None \<Rightarrow> 0 | Some i \<Rightarrow> i);
          target = enemies closure ! enemyIndex;
          newEnemyHp = enemy_hp target - playerDamage;
          newEnemiesState = (enemies closure)[enemyIndex := target\<lparr>enemy_hp := newEnemyHp, isHit := True\<rparr>];
          p1 = (if newEnemyHp > 0 then pl\<lparr>hp := hp pl - (enemy_attack enemyAtPos + \<lfloor>r1 0 * 3\<rfloor>)\<rparr> else pl);
          r2 = (if newEnemyHp > 0 then createDamageNumber (rtl r1) else r1);
          dead = (hp p1 \<le> 0);
          newPlayerState = (if dead then p1\<lparr>hp := 0\<rparr> else p1);
          app1 = app\<lparr>animating := True,
                     isGameOver := (if dead then True else isGameOver app),
                     gameState := (gameState app)\<lparr>player := newPlayerState,
                        enemies := map (\<lambda>e. e\<lparr>isHit := False\<rparr>) newEnemiesState\<rparr>\<rparr>
      in if hp newPlayerState > 0 then processEnemyTurn0 r2 app1
         else (app1\<lparr>animating := False\<rparr>, r2))"

text \<open>\<^verbatim>\<open>handleMove(direction)\<close> with the timeouts it schedules run to their end. The
  first state update records the direction; it is queued before any of the checks.\<close>

definition handleMove0 :: "(int \<Rightarrow> GameState) \<Rightarrow> Direction \<Rightarrow> rng \<Rightarrow> App \<Rightarrow> App \<times> rng" where
  "handleMove0 gen dir r app =
     (if inputLocked0 app then (app, r)
      else
        (let closure = gameState app;
             app1 = app\<lparr>gameState := closure\<lparr>player := (player closure)\<lparr>lastMoveDirection := Some dir\<rparr>\<rparr>\<rparr>
         in case stepDir dir (pos_x (player closure), pos_y (player closure)) of (nextX, nextY) \<Rightarrow>
            if tileAt (gs_map closure) nextY nextX = Some WALL then (app1, r)
            else
              (let nextScreen = \<lparr>pos_x = nextX div VIEWPORT_WIDTH, pos_y = nextY div VIEWPORT_HEIGHT\<rparr>
               in if \<not> (pos_x (camera closure) = pos_x nextScreen \<and> pos_y (camera closure) = pos_y nextScreen)
                  then
                    (if pos_x nextScreen \<ge> 0 \<and> pos_x nextScreen < WORLD_SCREENS_W
                        \<and> pos_y nextScreen \<ge> 0 \<and> pos_y nextScreen < WORLD_SCREENS_H
                     then (app1\<lparr>gameState := (gameState app1)
                              \<lparr>player := (player (gameState app1))\<lparr>pos_x := nextX, pos_y := nextY\<rparr>,
                               camera := nextScreen\<rparr>\<rparr>, r)
                     else (app1, r))
                  else
                    (case find (\<lambda>e. atPos nextX nextY e \<and> enemy_hp e > 0) (enemies closure) of
                       Some enemyAtPos \<Rightarrow> melee0 closure enemyAtPos r app1
                     | None \<Rightarrow>
                         (case processTurn0 nextX nextY r app1 of (app2, fu, r1) \<Rightarrow>
                            followUp0 gen closure fu r1 app2)))))"

text \<open>\<^verbatim>\<open>Math.floor((attack + arrowDamageBonus) * 0.8) + Math.floor(Math.random() * 4)\<close>;
  \<open>rnd\<close> is the random number drawn. For the integers of the game the floating-point
  product with 0.8 has the floor of the exact product.\<close>

definition arrowDamage0 :: "Player \<Rightarrow> real \<Rightarrow> int" where
  "arrowDamage0 pl rnd =
     \<lfloor>real_of_int (attack pl + arrowDamageBonus pl) * (8 / 10)\<rfloor> + \<lfloor>rnd * 4\<rfloor>"

text \<open>\<^verbatim>\<open>moveArrow\<close>, the self-rescheduling step of the projectile. \<open>closure\<close> is the
  \<^verbatim>\<open>gameState\<close> that \<^verbatim>\<open>handleFireArrow\<close> captured; the first argument bounds the
  number of steps, and \<open>None\<close> says that the projectile is still in flight after that
  many. A hit draws the damage bonus, and the update it queues shows a damage number.\<close>

fun moveArrow0 ::
  "nat \<Rightarrow> GameState \<Rightarrow> Direction \<Rightarrow> int \<times> int \<Rightarrow> rng \<Rightarrow> App \<Rightarrow> (App \<times> rng) option" where
  "moveArrow0 0 closure dir arrowPos r app = None"
| "moveArrow0 (Suc n) closure dir arrowPos r app =
     (case stepDir dir arrowPos of (ax, ay) \<Rightarrow>
        (let app1 = app\<lparr>arrowProjectile := Some \<lparr>pos_x = ax, pos_y = ay, visible = True, direction = dir\<rparr>\<rparr>
         in if tileAt (gs_map closure) ay ax = Some WALL
            then Some (app1\<lparr>arrowProjectile := None\<rparr>, r)
            else
              (case findIndex (\<lambda>e. atPos ax ay e \<and> enemy_hp e > 0) (enemies closure) of
                 Some enemyHitIndex \<Rightarrow>
                   (let arrowDamage = arrowDamage0 (player closure) (r 0);
                        prev = gameState app1;
                        hit = enemies prev ! enemyHitIndex;
                        newEnemies = map (\<lambda>e. e\<lparr>isHit := False\<rparr>)
                                       ((enemies prev)[enemyHitIndex :=
                                          hit\<lparr>enemy_hp := enemy_hp hit - arrowDamage, isHit := True\<rparr>])
                    in Some (app1\<lparr>gameState := prev\<lparr>enemies := newEnemies\<rparr>,
                                  arrowProjectile := None\<rparr>, createDamageNumber (rtl r)))
               | None \<Rightarrow> moveArrow0 n closure dir (ax, ay) r app1)))"

text \<open>\<^verbatim>\<open>handleFireArrow\<close>: the guard, the arrow spent, and the flight for at most
  \<open>fuel\<close> steps.\<close>

definition handleFireArrow0 :: "nat \<Rightarrow> rng \<Rightarrow> App \<Rightarrow> (App \<times> rng) option" where
  "handleFireArrow0 fuel r app =
     (let closure = gameState app; pl = player closure
      in if inputLocked0 app \<or> arrows pl \<le> 0 then Some (app, r)
         else
           (case lastMoveDirection pl of
              None \<Rightarrow> Some (app, r)
            | Some dir \<Rightarrow>
                moveArrow0 fuel closure dir (pos_x pl, pos_y pl) r
                  (app\<lparr>gameState := closure\<lparr>player := pl\<lparr>arrows := arrows pl - 1\<rparr>\<rparr>\<rparr>)))"

text \<open>\<^verbatim>\<open>handleDropBomb\<close>; \<open>now\<close> is \<^verbatim>\<open>Date.now()\<close>.\<close>

definition handleDropBomb0 :: "int \<Rightarrow> App \<Rightarrow> App" where
  "handleDropBomb0 now app =
     (let gs = gameState app; pl = player gs
      in if isGameOver app \<or> isInspecting app \<or> animating app \<or> isPaused app \<or> bombs pl \<le> 0
            \<or> isLevelingUp app \<or> isShopping app \<or> isTransitioning app then app
         else if list_ex (atPos (pos_x pl) (pos_y pl)) (gs_bombs gs) then app
         else app\<lparr>gameState := gs\<lparr>player := pl\<lparr>bombs := bombs pl - 1\<rparr>,
                    gs_bombs := gs_bombs gs @ [\<lparr>pos_x = pos_x pl, pos_y = pos_y pl, bomb_id = now,
                                                stepsRemaining = BOMB_FUSE_STEPS0\<rparr>]\<rparr>\<rparr>)"

definition handleUsePotion0 :: "App \<Rightarrow> App" where
  "handleUsePotion0 app =
     (let gs = gameState app; pl = player gs
      in if potions pl \<le> 0 \<or> hp pl = maxHp pl then app
         else app\<lparr>gameState := gs\<lparr>player := pl\<lparr>potions := potions pl - 1,
                                                 hp := min (maxHp pl) (hp pl + 50)\<rparr>\<rparr>\<rparr>)"

definition handleUseAntidote0 :: "App \<Rightarrow> App" where
  "handleUseAntidote0 app =
     (let gs = gameState app; pl = player gs
      in if antidotes pl \<le> 0 \<or> \<not> isPoisoned pl then app
         else app\<lparr>gameState := gs\<lparr>player := pl\<lparr>antidotes := antidotes pl - 1,
                                                 isPoisoned := False\<rparr>\<rparr>\<rparr>)"

section \<open>part_001\<close>

text \<open>The tables of \<^verbatim>\<open>data/enemies\<close>, \<^verbatim>\<open>data/altars\<close>, \<^verbatim>\<open>data/augments\<close> and
  \<^verbatim>\<open>data/systems\<close> are not part of the sources; the functions below take what they
  read from them as a parameter. A stat named by an altar effect or an augment is one
  of the numeric properties of the player.\<close>

datatype error = TypeError

datatype StatKey =
    K_hp | K_maxHp | K_attack | K_arrows | K_maxArrows | K_bombs | K_maxBombs | K_potions
  | K_antidotes | K_gold | K_level | K_xp | K_xpToNextLevel | K_poisonStepCounter
  | K_meleeDamageBonus | K_arrowDamageBonus | K_bombDamageBonus | K_corruption | K_stepsTaken

fun getStat :: "StatKey \<Rightarrow> Player \<Rightarrow> int" where
  "getStat K_hp p = hp p"
| "getStat K_maxHp p = maxHp p"
| "getStat K_attack p = attack p"
| "getStat K_arrows p = arrows p"
| "getStat K_maxArrows p = maxArrows p"
| "getStat K_bombs p = bombs p"
| "getStat K_maxBombs p = maxBombs p"
| "getStat K_potions p = potions p"
| "getStat K_antidotes p = antidotes p"
| "getStat K_gold p = gold p"
| "getStat K_level p = level p"
| "getStat K_xp p = xp p"
| "getStat K_xpToNextLevel p = xpToNextLevel p"
| "getStat K_poisonStepCounter p = poisonStepCounter p"
| "getStat K_meleeDamageBonus p = meleeDamageBonus p"
| "getStat K_arrowDamageBonus p = arrowDamageBonus p"
| "getStat K_bombDamageBonus p = bombDamageBonus p"
| "getStat K_corruption p = corruption p"
| "getStat K_stepsTaken p = stepsTaken p"

fun setStat :: "StatKey \<Rightarrow> int \<Rightarrow> Player \<Rightarrow> Player" where
  "setStat K_hp v p = p\<lparr>hp := v\<rparr>"
| "setStat K_maxHp v p = p\<lparr>maxHp := v\<rparr>"
| "setStat K_attack v p = p\<lparr>attack := v\<rparr>"
| "setStat K_arrows v p = p\<lparr>arrows := v\<rparr>"
| "setStat K_maxArrows v p = p\<lparr>maxArrows := v\<rparr>"
| "setStat K_bombs v p = p\<lparr>bombs := v\<rparr>"
| "setStat K_maxBombs v p = p\<lparr>maxBombs := v\<rparr>"
| "setStat K_potions v p = p\<lparr>potions := v\<rparr>"
| "setStat K_antidotes v p = p\<lparr>antidotes := v\<rparr>"
| "setStat K_gold v p = p\<lparr>gold := v\<rparr>"
| "setStat K_level v p = p\<lparr>level := v\<rparr>"
| "setStat K_xp v p = p\<lparr>xp := v\<rparr>"
| "setStat K_xpToNextLevel v p = p\<lparr>xpToNextLevel := v\<rparr>"
| "setStat K_poisonStepCounter v p = p\<lparr>poisonStepCounter := v\<rparr>"
| "setStat K_meleeDamageBonus v p = p\<lparr>meleeDamageBonus := v\<rparr>"
| "setStat K_arrowDamageBonus v p = p\<lparr>arrowDamageBonus := v\<rparr>"
| "setStat K_bombDamageBonus v p = p\<lparr>bombDamageBonus := v\<rparr>"
| "setStat K_corruption v p = p\<lparr>corruption := v\<rparr>"
| "setStat K_stepsTaken v p = p\<lparr>stepsTaken := v\<rparr>"

text \<open>An entry of \<^verbatim>\<open>ALTAR_EFFECTS\<close>: its \<^verbatim>\<open>type\<close> with what that type carries,
  and its \<^verbatim>\<open>corruption\<close> (0 when the entry has none).\<close>

datatype AltarEffect =
    StatEffect StatKey int int
  | AugmentEffect string int
  | OtherEffect int

fun effectCorruption :: "AltarEffect \<Rightarrow> int" where
  "effectCorruption (StatEffect k v c) = c"
| "effectCorruption (AugmentEffect a c) = c"
| "effectCorruption (OtherEffect c) = c"

text \<open>\<open>canPoison\<close>: \<^verbatim>\<open>ENEMY_DATA[t].canPoison\<close>. \<open>altarEffects\<close>:
  \<^verbatim>\<open>Object.values(ALTAR_EFFECTS)\<close>. \<open>onAcquire\<close>: the entries of
  \<^verbatim>\<open>AUGMENTS[id].onAcquire\<close> (empty when the augment has none), \<open>None\<close> when
  \<^verbatim>\<open>AUGMENTS\<close> has no such id. \<open>viewportW\<close>, \<open>viewportH\<close>:
  \<^verbatim>\<open>SYSTEMS.VIEWPORT_WIDTH\<close>, \<^verbatim>\<open>SYSTEMS.VIEWPORT_HEIGHT\<close>.\<close>

record Tables =
  canPoison :: "EnemyType \<Rightarrow> bool"
  altarEffects :: "AltarEffect list"
  onAcquire :: "string \<Rightarrow> (StatKey \<times> int) list option"
  viewportW :: int
  viewportH :: int

definition processAugmentEffects1 :: "Player \<Rightarrow> Player" where
  "processAugmentEffects1 playerState =
     (if ''CORRUPTED_BLOOD'' \<in> set (activeAugments playerState)
         \<and> stepsTaken playerState mod 25 = 0 \<and> stepsTaken playerState > 0
      then (let p1 = playerState\<lparr>maxHp := max 1 (maxHp playerState - 1)\<rparr>
            in p1\<lparr>hp := min (hp p1) (maxHp p1)\<rparr>)
      else playerState)"

text \<open>The body of \<^verbatim>\<open>newEnemies.forEach((enemy, index) => ...)\<close> in
  \<^verbatim>\<open>processEnemyTurn\<close>. The array \<^verbatim>\<open>newEnemies\<close> is updated in place while the
  loop runs; \<^verbatim>\<open>currentState.map[newY][newX]\<close> throws when the row does not exist.
  An attack shows a damage number before the poison roll.\<close>

definition enemyStep1 ::
  "(EnemyType \<Rightarrow> bool) \<Rightarrow> TileType list list \<Rightarrow> nat
   \<Rightarrow> Enemy list \<times> Player \<times> bool \<times> rng \<Rightarrow> error + (Enemy list \<times> Player \<times> bool \<times> rng)" where
  "enemyStep1 poisons m index st =
     (case st of (newEnemies, newPlayer, playerTookDamage, r) \<Rightarrow>
      let enemy = newEnemies ! index;
          dx = pos_x newPlayer - pos_x enemy;
          dy = pos_y newPlayer - pos_y enemy;
          newX = (if \<bar>dx\<bar> > \<bar>dy\<bar> then pos_x enemy + sgn dx else pos_x enemy);
          newY = (if \<bar>dx\<bar> > \<bar>dy\<bar> then pos_y enemy else pos_y enemy + sgn dy)
      in if newX = pos_x newPlayer \<and> newY = pos_y newPlayer then
           (let damage = max 1 (enemy_attack enemy);
                p1 = newPlayer\<lparr>hp := hp newPlayer - damage\<rparr>;
                r1 = createDamageNumber r;
                rolls = poisons (enemy_type enemy);
                p2 = (if rolls \<and> r1 0 < 3 / 10 then p1\<lparr>isPoisoned := True\<rparr> else p1)
            in Inr (newEnemies, p2, True, if rolls then rtl r1 else r1))
         else
           (case rowAt m newY of
              None \<Rightarrow> Inl TypeError
            | Some row \<Rightarrow>
                if cellAt row newX = Some FLOOR \<and> \<not> list_ex (atPos newX newY) newEnemies
                then Inr (newEnemies[index := enemy\<lparr>pos_x := newX, pos_y := newY\<rparr>],
                          newPlayer, playerTookDamage, r)
                else Inr st))"

text \<open>The loop itself: \<open>n\<close> enemies are still to be visited, the next one at \<open>index\<close>.\<close>

fun enemyLoop1 ::
  "(EnemyType \<Rightarrow> bool) \<Rightarrow> TileType list list \<Rightarrow> nat \<Rightarrow> nat
   \<Rightarrow> Enemy list \<times> Player \<times> bool \<times> rng \<Rightarrow> error + (Enemy list \<times> Player \<times> bool \<times> rng)" where
  "enemyLoop1 poisons m 0 index st = Inr st"
| "enemyLoop1 poisons m (Suc n) index st =
     (case enemyStep1 poisons m index st of
        Inl e \<Rightarrow> Inl e
      | Inr st' \<Rightarrow> enemyLoop1 poisons m n (Suc index) st')"

text \<open>\<^verbatim>\<open>processEnemyTurn(currentState)\<close>: the state it returns, whether it called
  \<^verbatim>\<open>setIsGameOver(true)\<close>, and the rest of the random stream.\<close>

definition processEnemyTurn1 ::
  "(EnemyType \<Rightarrow> bool) \<Rightarrow> rng \<Rightarrow> GameState \<Rightarrow> error + (GameState \<times> bool \<times> rng)" where
  "processEnemyTurn1 poisons r currentState =
     (case enemyLoop1 poisons (gs_map currentState) (length (enemies currentState)) 0
             (enemies currentState, player currentState, False, r) of
        Inl e \<Rightarrow> Inl e
      | Inr (newEnemies, newPlayer, playerTookDamage, r') \<Rightarrow>
          Inr (currentState\<lparr>player := newPlayer, enemies := newEnemies\<rparr>,
               playerTookDamage \<and> hp newPlayer \<le> 0, r'))"

text \<open>The tiles of one explosion: the square around the bomb, inside the map (whose
  width is read from \<^verbatim>\<open>map[0].length\<close>, which throws on an empty map), within
  distance \<^verbatim>\<open>BOMB_RANGE\<close>. For integers \<^verbatim>\<open>Math.sqrt(dx*dx + dy*dy) <= R\<close> is
  \<open>dx * dx + dy * dy \<le> R * R\<close>.\<close>

definition blastTiles1 :: "TileType list list \<Rightarrow> Bomb \<Rightarrow> error + Position list" where
  "blastTiles1 m bomb =
     (let bx = pos_x bomb; byy = pos_y bomb; R = BOMB_RANGE1
      in if m = [] \<and> bx + R \<ge> 0 then Inl TypeError
         else Inr [\<lparr>pos_x = tx, pos_y = ty\<rparr>.
                     ty \<leftarrow> [byy - R..byy + R], tx \<leftarrow> [bx - R..bx + R],
                     tx \<ge> 0 \<and> tx < int (length (hd m)) \<and> ty \<ge> 0 \<and> ty < int (length m)
                     \<and> (tx - bx) * (tx - bx) + (ty - byy) * (ty - byy) \<le> R * R])"

text \<open>The loop \<^verbatim>\<open>for (const bomb of newState.bombs)\<close>: the bombs kept, the blast
  tiles, and the bombs for which \<^verbatim>\<open>bomb_explode\<close> was played.\<close>

fun bombLoop1 ::
  "TileType list list \<Rightarrow> Bomb list \<Rightarrow> Bomb list \<times> Position list \<times> Bomb list
   \<Rightarrow> error + (Bomb list \<times> Position list \<times> Bomb list)" where
  "bombLoop1 m [] acc = Inr acc"
| "bombLoop1 m (bomb # bs) (newBombs, newBlasts, burst) =
     (let newSteps = stepsRemaining bomb - 1
      in if newSteps > 0
         then bombLoop1 m bs (newBombs @ [bomb\<lparr>stepsRemaining := newSteps\<rparr>], newBlasts, burst)
         else (case blastTiles1 m bomb of
                 Inl e \<Rightarrow> Inl e
               | Inr tiles \<Rightarrow> bombLoop1 m bs (newBombs, newBlasts @ tiles, burst @ [bomb])))"

text \<open>The block \<^verbatim>\<open>// Poison\<close> of \<^verbatim>\<open>processTurn\<close>.\<close>

definition poisonTick1 :: "Player \<Rightarrow> Player" where
  "poisonTick1 p =
     (if isPoisoned p then
        (let newCounter = poisonStepCounter p + 1
         in if newCounter \<ge> POISON_TICK_STEPS
            then p\<lparr>hp := hp p - POISON_DAMAGE, poisonStepCounter := 0\<rparr>
            else p\<lparr>poisonStepCounter := newCounter\<rparr>)
      else p)"

record TurnResult =
  state1 :: GameState
  gameOver1 :: bool
  exploded1 :: "Bomb list"
  defeated1 :: "Enemy list"
  rng1 :: rng

text \<open>\<^verbatim>\<open>processTurn(newPlayerPos)\<close>: a function of the handler's \<^verbatim>\<open>gameState\<close>
  (\<open>closure\<close>) that returns the next state without committing it. Before the enemy
  turn it shows a damage number for each enemy caught by a blast, for the player caught
  by a blast, and for a poison tick.\<close>

definition processTurn1 ::
  "(EnemyType \<Rightarrow> bool) \<Rightarrow> int \<Rightarrow> int \<Rightarrow> rng \<Rightarrow> GameState \<Rightarrow> error + TurnResult" where
  "processTurn1 poisons px py r closure =
     (let p0 = (player closure)\<lparr>pos_x := px, pos_y := py,
                                 stepsTaken := stepsTaken (player closure) + 1\<rparr>;
          p1 = processAugmentEffects1 p0
      in case bombLoop1 (gs_map closure) (gs_bombs closure) ([], [], []) of
           Inl e \<Rightarrow> Inl e
         | Inr (newBombs, newBlasts, burst) \<Rightarrow>
             (let bombDamage = 20 + bombDamageBonus p1;
                  caught = (\<lambda>e. newBlasts \<noteq> [] \<and> inBlast newBlasts (pos_x e) (pos_y e));
                  survivors = filter (\<lambda>e. \<not> caught e) (enemies closure);
                  playerCaught = (newBlasts \<noteq> [] \<and> inBlast newBlasts (pos_x p1) (pos_y p1));
                  p2 = (if playerCaught then p1\<lparr>hp := hp p1 - bombDamage\<rparr> else p1);
                  over1 = (playerCaught \<and> hp p2 \<le> 0);
                  burns = (isPoisoned p2 \<and> poisonStepCounter p2 + 1 \<ge> POISON_TICK_STEPS);
                  p3 = poisonTick1 p2;
                  over2 = (burns \<and> hp p3 \<le> 0);
                  newState = closure\<lparr>player := p3, gs_bombs := newBombs, enemies := survivors,
                                      activeBlasts := newBlasts\<rparr>;
                  shown = length (filter caught (enemies closure))
                          + (if playerCaught then 1 else 0) + (if burns then 1 else 0)
              in case processEnemyTurn1 poisons ((createDamageNumber ^^ shown) r) newState of
                   Inl e \<Rightarrow> Inl e
                 | Inr (moved, over3, r') \<Rightarrow>
                     Inr \<lparr>state1 = moved, gameOver1 = (over1 \<or> over2 \<or> over3),
                          exploded1 = burst,
                          defeated1 = filter caught (enemies closure), rng1 = r'\<rparr>))"

text \<open>The \<^verbatim>\<open>switch (itemAtTarget.type)\<close> of \<^verbatim>\<open>handleMove\<close>.\<close>

fun pickup1 :: "ItemType \<Rightarrow> Player \<Rightarrow> Player" where
  "pickup1 GOLD p = p\<lparr>gold := gold p + 10\<rparr>"
| "pickup1 POTION p = p\<lparr>potions := min 3 (potions p + 1)\<rparr>"
| "pickup1 ARROWS p = p\<lparr>arrows := min (maxArrows p) (arrows p + 3)\<rparr>"
| "pickup1 BOMB p = p\<lparr>bombs := min (maxBombs p) (bombs p + 1)\<rparr>"
| "pickup1 ANTIDOTE p = p\<lparr>antidotes := min 3 (antidotes p + 1)\<rparr>"

text \<open>\<^verbatim>\<open>Object.entries(augment.onAcquire).forEach(([stat, value]) => newPlayer[stat] += value)\<close>\<close>

fun acquire :: "(StatKey \<times> int) list \<Rightarrow> Player \<Rightarrow> Player" where
  "acquire [] p = p"
| "acquire ((k, v) # kvs) p = acquire kvs (setStat k (getStat k p + v) p)"

text \<open>The altar block of \<^verbatim>\<open>handleMove\<close> for the effect drawn. It throws when no
  effect is drawn (an empty table) and when the augment granted is not in
  \<^verbatim>\<open>AUGMENTS\<close>.\<close>

definition altarStep1 :: "Tables \<Rightarrow> rng \<Rightarrow> Player \<Rightarrow> error + Player" where
  "altarStep1 t r p =
     (let effects = altarEffects t; i = \<lfloor>r 0 * real (length effects)\<rfloor>
      in if i < 0 \<or> i \<ge> int (length effects) then Inl TypeError
         else
           (let effect = effects ! nat i;
                gained = (if effectCorruption effect = 0 then 10 else effectCorruption effect);
                settle = (\<lambda>q. q\<lparr>corruption := min 100 (corruption q + gained)\<rparr>)
            in case effect of
                 StatEffect k v c \<Rightarrow>
                   (let q = setStat k (max (if k = K_maxHp then 10 else 1) (getStat k p + v)) p
                    in Inr (settle (if k = K_maxHp then q\<lparr>hp := maxHp q\<rparr> else q)))
               | AugmentEffect a c \<Rightarrow>
                   (if a \<in> set (activeAugments p) then Inr (settle p)
                    else (case onAcquire t a of
                            None \<Rightarrow> Inl TypeError
                          | Some kvs \<Rightarrow>
                              Inr (settle (acquire kvs (p\<lparr>activeAugments := activeAugments p @ [a]\<rparr>)))))
               | OtherEffect c \<Rightarrow> Inr (settle p)))"

text \<open>Committing a result of \<^verbatim>\<open>processTurn\<close>: \<^verbatim>\<open>setGameState(newState)\<close> and the
  \<^verbatim>\<open>setIsGameOver(true)\<close> that the turn may have called.\<close>

definition commit1 :: "GameState \<Rightarrow> bool \<Rightarrow> App \<Rightarrow> App" where
  "commit1 gs over app = app\<lparr>gameState := gs, isGameOver := (if over then True else isGameOver app)\<rparr>"

text \<open>The attack branch of \<^verbatim>\<open>handleMove\<close>. The blow shows a damage number; the
  turn is then computed from the handler's state; the enemy list committed is the turn's list without the target when the blow
  kills, and the handler's own list with the target's hit points lowered when it does
  not (the flag \<^verbatim>\<open>isHit\<close> of the target is reset by a timeout).\<close>

definition attack1 :: "Tables \<Rightarrow> Enemy \<Rightarrow> rng \<Rightarrow> App \<Rightarrow> error + App \<times> rng" where
  "attack1 t enemyAtTarget r app =
     (let closure = gameState app; pl = player closure;
          damage = attack pl + meleeDamageBonus pl;
          newHp = enemy_hp enemyAtTarget - damage
      in case processTurn1 (canPoison t) (pos_x pl) (pos_y pl) (createDamageNumber r) closure of
           Inl e \<Rightarrow> Inl e
         | Inr res \<Rightarrow>
             (let newState = state1 res;
                  committed =
                    (if newHp \<le> 0
                     then filter (\<lambda>e. enemy_id e \<noteq> enemy_id enemyAtTarget) (enemies newState)
                     else map (\<lambda>e. if enemy_id e = enemy_id enemyAtTarget
                                    then e\<lparr>enemy_hp := newHp, isHit := False\<rparr> else e)
                              (enemies closure))
              in Inr (commit1 (newState\<lparr>enemies := committed\<rparr>) (gameOver1 res) app, rng1 res)))"

text \<open>The move branch of \<^verbatim>\<open>handleMove\<close>, with its timeout (the blast tiles are
  cleared after 100 ms). On the exit tile the handler calls \<^verbatim>\<open>handleNextLevel\<close> and
  returns without committing the turn; the augment list of the handler's own player is
  the array an altar on that tile has pushed to.\<close>

definition move1 ::
  "Tables \<Rightarrow> (int \<Rightarrow> GameState) \<Rightarrow> Direction \<Rightarrow> int \<Rightarrow> int \<Rightarrow> rng \<Rightarrow> App \<Rightarrow> error + App \<times> rng" where
  "move1 t gen dir tx ty r app =
     (let closure = gameState app
      in case processTurn1 (canPoison t) tx ty r closure of
           Inl e \<Rightarrow> Inl e
         | Inr res \<Rightarrow>
             (let s0 = state1 res;
                  p0 = (player s0)\<lparr>lastMoveDirection := Some dir\<rparr>;
                  itemAtTarget = find (atPos tx ty) (items s0);
                  fresh = (case itemAtTarget of None \<Rightarrow> False
                           | Some it \<Rightarrow> itemKey (pos_x it) (pos_y it) \<notin> pickedUpItems s0);
                  picked = (case itemAtTarget of None \<Rightarrow> pickedUpItems s0
                            | Some it \<Rightarrow> if fresh then insert (itemKey (pos_x it) (pos_y it)) (pickedUpItems s0)
                                         else pickedUpItems s0);
                  p1 = (case itemAtTarget of None \<Rightarrow> p0
                        | Some it \<Rightarrow> if fresh then pickup1 (item_type it) p0 else p0);
                  atWizard = optAt (wizard s0) tx ty;
                  app1 = app\<lparr>isShopping := (if atWizard then True else isShopping app),
                             isGameOver := (if gameOver1 res then True else isGameOver app)\<rparr>;
                  r1 = rng1 res;
                  atAltar = list_ex (atPos tx ty) (altars s0)
              in case (if atAltar then altarStep1 t r1 p1 else Inr p1) of
                   Inl e \<Rightarrow> Inl e
                 | Inr p2 \<Rightarrow>
                     (let r2 = (if atAltar then rtl r1 else r1)
                      in if optAt (gs_exit s0) tx ty
                         then Inr (handleNextLevel gen
                                     (closure\<lparr>player := (player closure)\<lparr>activeAugments := activeAugments p2\<rparr>\<rparr>)
                                     app1, r2)
                         else Inr (app1\<lparr>gameState := s0\<lparr>player := p2, pickedUpItems := picked,
                                           camera := \<lparr>pos_x = tx div viewportW t, pos_y = ty div viewportH t\<rparr>,
                                           activeBlasts := []\<rparr>\<rparr>, r2))))"

text \<open>\<^verbatim>\<open>handleMove(direction)\<close>. \<^verbatim>\<open>gameState.map[y][x]\<close> throws when the row does
  not exist.\<close>

definition handleMove1 ::
  "Tables \<Rightarrow> (int \<Rightarrow> GameState) \<Rightarrow> Direction \<Rightarrow> rng \<Rightarrow> App \<Rightarrow> error + App \<times> rng" where
  "handleMove1 t gen dir r app =
     (if animating app \<or> isPaused app then Inr (app, r)
      else
        (let closure = gameState app
         in case stepDir dir (pos_x (player closure), pos_y (player closure)) of (tx, ty) \<Rightarrow>
            (case rowAt (gs_map closure) ty of
               None \<Rightarrow> Inl TypeError
             | Some row \<Rightarrow>
                 if cellAt row tx = Some WALL then Inr (app, r)
                 else (case find (atPos tx ty) (enemies closure) of
                         Some enemyAtTarget \<Rightarrow> attack1 t enemyAtTarget r app
                       | None \<Rightarrow> move1 t gen dir tx ty r app))))"

definition usePotion1 :: "App \<Rightarrow> App" where
  "usePotion1 app =
     (let gs = gameState app; pl = player gs
      in if ''IRON_WILL'' \<in> set (activeAugments pl) then app
         else if potions pl > 0 \<and> hp pl < maxHp pl
         then (let healAmount = maxHp pl div 2
               in app\<lparr>gameState := gs\<lparr>player := pl\<lparr>hp := min (maxHp pl) (hp pl + healAmount),
                                                      potions := potions pl - 1\<rparr>\<rparr>\<rparr>)
         else app)"

definition useAntidote1 :: "App \<Rightarrow> App" where
  "useAntidote1 app =
     (let gs = gameState app; pl = player gs
      in if antidotes pl > 0 \<and> isPoisoned pl
         then app\<lparr>gameState := gs\<lparr>player := pl\<lparr>isPoisoned := False, poisonStepCounter := 0,
                                                 antidotes := antidotes pl - 1\<rparr>\<rparr>\<rparr>
         else app)"

text \<open>\<^verbatim>\<open>placeBomb\<close>; \<open>now\<close> is \<^verbatim>\<open>Date.now()\<close>.\<close>

definition placeBomb1 :: "int \<Rightarrow> App \<Rightarrow> App" where
  "placeBomb1 now app =
     (let gs = gameState app; pl = player gs
      in if bombs pl > 0
         then app\<lparr>gameState := gs\<lparr>player := pl\<lparr>bombs := bombs pl - 1\<rparr>,
                    gs_bombs := gs_bombs gs @ [\<lparr>pos_x = pos_x pl, pos_y = pos_y pl, bomb_id = now,
                                                stepsRemaining = BOMB_FUSE_STEPS1\<rparr>]\<rparr>\<rparr>
         else app)"

definition fireArrow1 :: "App \<Rightarrow> App" where
  "fireArrow1 app =
     (let gs = gameState app; pl = player gs
      in case lastMoveDirection pl of
           None \<Rightarrow> app
         | Some dir \<Rightarrow>
             if arrows pl > 0
             then app\<lparr>gameState := gs\<lparr>player := pl\<lparr>arrows := arrows pl - 1\<rparr>\<rparr>,
                      arrowProjectile := Some \<lparr>pos_x = pos_x pl, pos_y = pos_y pl,
                                               visible = True, direction = dir\<rparr>,
                      animating := True\<rparr>
             else app)"

text \<open>The damage of an arrow that meets an enemy.\<close>

definition arrowDamage1 :: "Player \<Rightarrow> int" where
  "arrowDamage1 pl = 10 + arrowDamageBonus pl"

text \<open>The update queued when the arrow meets an enemy: the enemy's hit points become
  those the effect has computed from its own copy of the enemy, and the enemy is
  removed when nothing is left. \<open>pl\<close> is the player of the effect's own
  \<^verbatim>\<open>gameState\<close>, \<open>prev\<close> the latest state.\<close>

definition arrowHit1 :: "Enemy \<Rightarrow> Player \<Rightarrow> GameState \<Rightarrow> GameState" where
  "arrowHit1 enemyHit pl prev =
     (let damage = arrowDamage1 pl; newHp = enemy_hp enemyHit - damage
      in prev\<lparr>enemies :=
           (if newHp \<le> 0 then filter (\<lambda>e. enemy_id e \<noteq> enemy_id enemyHit) (enemies prev)
            else map (\<lambda>e. if enemy_id e = enemy_id enemyHit then e\<lparr>enemy_hp := newHp\<rparr> else e)
                     (enemies prev))\<rparr>)"

text \<open>The end of a flight: the projectile is removed, the lock released, and a turn
  computed from the effect's own \<^verbatim>\<open>gameState\<close> (\<open>closure\<close>) is committed with
  \<^verbatim>\<open>setGameState(newState)\<close>, which replaces the state whatever was queued before.\<close>

definition arrowLands1 :: "Tables \<Rightarrow> GameState \<Rightarrow> rng \<Rightarrow> App \<Rightarrow> error + App \<times> rng" where
  "arrowLands1 t closure r app =
     (let pl = player closure;
          app1 = app\<lparr>arrowProjectile := None, animating := False\<rparr>
      in case processTurn1 (canPoison t) (pos_x pl) (pos_y pl) r closure of
           Inl e \<Rightarrow> Inl e
         | Inr res \<Rightarrow> Inr (commit1 (state1 res) (gameOver1 res) app1, rng1 res))"

text \<open>One tick of the interval that the effect on \<^verbatim>\<open>arrowProjectile\<close> starts.
  \<open>closure\<close> and \<open>ap\<close> are the \<^verbatim>\<open>gameState\<close> and the projectile of the render
  in which the effect ran (the effect depends on \<^verbatim>\<open>arrowProjectile\<close> and
  \<^verbatim>\<open>gameState.map\<close> only, so an update of the state that changes neither leaves the
  interval with the state it was created in); \<open>app\<close> is the component when the tick
  fires. The tick either ends the flight (\<open>Inl\<close>), a hit showing a damage number and
  queueing its update on the latest state first, or moves the projectile (\<open>Inr\<close>),
  which runs the effect again: its cleanup releases the lock.\<close>

definition arrowTick1 ::
  "Tables \<Rightarrow> GameState \<Rightarrow> ArrowProjectile \<Rightarrow> rng \<Rightarrow> App \<Rightarrow> (error + App \<times> rng) + App" where
  "arrowTick1 t closure ap r app =
     (case stepDir (direction ap) (pos_x ap, pos_y ap) of (ax, ay) \<Rightarrow>
        if tileAt (gs_map closure) ay ax \<noteq> Some FLOOR
        then Inl (arrowLands1 t closure r app)
        else (case find (atPos ax ay) (enemies closure) of
                Some enemyHit \<Rightarrow>
                  Inl (arrowLands1 t closure (createDamageNumber r)
                         (app\<lparr>gameState := arrowHit1 enemyHit (player closure) (gameState app)\<rparr>))
              | None \<Rightarrow>
                  Inr (case arrowProjectile app of
                         None \<Rightarrow> app
                       | Some p \<Rightarrow> app\<lparr>arrowProjectile := Some (p\<lparr>pos_x := ax, pos_y := ay\<rparr>),
                                       animating := False\<rparr>)))"

text \<open>The flight of a projectile when nothing else updates the state between the
  ticks: every tick is that of the effect run in the render of the current state. The
  first argument bounds the number of ticks; \<open>None\<close> says that the projectile is
  still in flight after that many.\<close>

fun arrowFlight1 :: "Tables \<Rightarrow> nat \<Rightarrow> rng \<Rightarrow> App \<Rightarrow> (error + App \<times> rng) option" where
  "arrowFlight1 t 0 r app = None"
| "arrowFlight1 t (Suc n) r app =
     (case arrowProjectile app of
        None \<Rightarrow> Some (Inr (app, r))
      | Some ap \<Rightarrow>
          if \<not> visible ap then Some (Inr (app, r))
          else (case arrowTick1 t (gameState app) ap r app of
                  Inl landed \<Rightarrow> Some landed
                | Inr app' \<Rightarrow> arrowFlight1 t n r app'))"

section \<open>Example states\<close>

text \<open>A corridor of five floor tiles between walls, a knight at its left end.\<close>

definition ex_map :: "TileType list list" where
  "ex_map = [[WALL, WALL, WALL, WALL, WALL, WALL, WALL],
             [WALL, FLOOR, FLOOR, FLOOR, FLOOR, FLOOR, WALL],
             [WALL, WALL, WALL, WALL, WALL, WALL, WALL]]"

definition ex_player :: Player where
  "ex_player = \<lparr>pos_x = 1, pos_y = 1, hp = 100, maxHp = 120, attack = 12, arrows = 2,
      maxArrows = 3, bombs = 1, maxBombs = 3, potions = 1, antidotes = 1, gold = 100,
      level = 1, xp = 0, xpToNextLevel = 100, playerClass = Knight,
      lastMoveDirection = Some ArrowRight, isPoisoned = False, poisonStepCounter = 0,
      meleeDamageBonus = 2, arrowDamageBonus = 0, bombDamageBonus = - 15, corruption = 0,
      activeAugments = [], stepsTaken = 0\<rparr>"

definition ex_enemy :: "int \<Rightarrow> int \<Rightarrow> int \<Rightarrow> Enemy" where
  "ex_enemy i ex ey = \<lparr>pos_x = ex, pos_y = ey, enemy_id = i, enemy_type = GOBLIN,
      enemy_hp = 30, enemy_attack = 5, isHit = False\<rparr>"

definition ex_state :: GameState where
  "ex_state = \<lparr>gs_map = ex_map, player = ex_player, enemies = [], items = [],
      gs_exit = None, wizard = None, hazards = [], gs_bombs = [], activeBlasts = [],
      pickedUpItems = {}, gs_level = 3, camera = \<lparr>pos_x = 0, pos_y = 0\<rparr>, altars = []\<rparr>"

definition ex_app :: App where
  "ex_app = \<lparr>gameState = ex_state, isGameOver = False, isPaused = False, animating = False,
      isInspecting = False, isLevelingUp = False, isShopping = False,
      isTransitioning = False, arrowProjectile = None\<rparr>"

definition ex_tables :: Tables where
  "ex_tables = \<lparr>canPoison = (\<lambda>t. t = SPIDER), altarEffects = [OtherEffect 0],
      onAcquire = (\<lambda>a. Some []), viewportW = 13, viewportH = 20\<rparr>"

definition ex_rng :: rng where
  "ex_rng = (\<lambda>n. 1 / 2)"

text \<open>A knight who has levelled up (maximum hit points 140, attack 17, player level
  3) and holds 100 gold.\<close>

definition ex_veteran :: App where
  "ex_veteran = ex_app\<lparr>gameState := ex_state\<lparr>player :=
                   ex_player\<lparr>gold := 100, maxHp := 140, attack := 17, level := 3\<rparr>\<rparr>\<rparr>"

text \<open>A knight with 3 hit points left and a goblin (attack 5) on the next tile.\<close>

definition ex_wounded :: GameState where
  "ex_wounded = ex_state\<lparr>player := ex_player\<lparr>hp := 3\<rparr>, enemies := [ex_enemy 1 2 1]\<rparr>"

text \<open>A poisoned knight, two steps into the poison count, with one antidote.\<close>

definition ex_poisoned :: App where
  "ex_poisoned = ex_app\<lparr>gameState := ex_state\<lparr>player :=
                    ex_player\<lparr>isPoisoned := True, poisonStepCounter := 2\<rparr>\<rparr>\<rparr>"

text \<open>A knight with one bomb in the bag, standing on a bomb already placed.\<close>

definition ex_stacked :: App where
  "ex_stacked = ex_app\<lparr>gameState := ex_state\<lparr>gs_bombs :=
       [\<lparr>pos_x = 1, pos_y = 1, bomb_id = 5, stepsRemaining = 2\<rparr>]\<rparr>\<rparr>"

text \<open>The bomb the knight places at time 7, with a given number of steps left.\<close>

definition ex_bomb :: "int \<Rightarrow> Bomb" where
  "ex_bomb n = \<lparr>pos_x = 1, pos_y = 1, bomb_id = 7, stepsRemaining = n\<rparr>"



text \<open>A map of one row of three floor tiles, the knight in the middle, facing right.\<close>

definition ex_open :: App where
  "ex_open = ex_app\<lparr>gameState := ex_state\<lparr>gs_map := [[FLOOR, FLOOR, FLOOR]],
                 player := ex_player\<lparr>pos_x := 1, pos_y := 0\<rparr>\<rparr>\<rparr>"

text \<open>The knight (100 gold, dungeon level 3) with a gold item on the next tile.\<close>

definition ex_treasure :: App where
  "ex_treasure = ex_app\<lparr>gameState := ex_state\<lparr>items :=
                     [\<lparr>pos_x = 2, pos_y = 1, item_type = GOLD\<rparr>]\<rparr>\<rparr>"

text \<open>The same once the gold has been collected.\<close>

definition ex_collected :: App where
  "ex_collected = ex_treasure\<lparr>gameState := (gameState ex_treasure)\<lparr>pickedUpItems := {itemKey 2 1}\<rparr>\<rparr>"

text \<open>A row of sixteen floor tiles, the knight on the last tile of the first screen and
  gold on the first tile of the next.\<close>

definition ex_border :: App where
  "ex_border = ex_app\<lparr>gameState := ex_state\<lparr>gs_map := [replicate 16 FLOOR],
                   player := ex_player\<lparr>pos_x := 12, pos_y := 0\<rparr>,
                   items := [\<lparr>pos_x = 13, pos_y = 0, item_type = GOLD\<rparr>]\<rparr>\<rparr>"





text \<open>The knight on the fourth tile of the corridor, facing right, with a bomb on the
  first tile that has one step left.\<close>

definition ex_fused :: App where
  "ex_fused = ex_app\<lparr>gameState := ex_state\<lparr>player := ex_player\<lparr>pos_x := 4\<rparr>,
                  gs_bombs := [ex_bomb 1]\<rparr>\<rparr>"


text \<open>The knight at the right end of the corridor and a list of enemies.\<close>

definition ex_pack :: "Enemy list \<Rightarrow> GameState" where
  "ex_pack es = ex_state\<lparr>player := ex_player\<lparr>pos_x := 5\<rparr>, enemies := es\<rparr>"

section \<open>Notions used by the properties\<close>

text \<open>The tile a move in a direction would enter, as \<^verbatim>\<open>handleMove\<close> looks it up.\<close>

definition targetTile :: "Direction \<Rightarrow> GameState \<Rightarrow> TileType option" where
  "targetTile dir gs =
     (case stepDir dir (pos_x (player gs), pos_y (player gs)) of
        (tx, ty) \<Rightarrow> tileAt (gs_map gs) ty tx)"

text \<open>No two bombs of the list lie on the same tile.\<close>

definition noStackedBombs :: "Bomb list \<Rightarrow> bool" where
  "noStackedBombs bs = distinct (map (\<lambda>b. (pos_x b, pos_y b)) bs)"

text \<open>What the loop body of part_000's enemy turn makes of one enemy, and of the player
  and the hit flag, when every random number drawn is \<open>c\<close>; and whether the enemy
  attacks.\<close>

definition enemyMove0 :: "GameState \<Rightarrow> real \<Rightarrow> Enemy \<Rightarrow> Enemy" where
  "enemyMove0 prev c e = fst (enemyStep0 prev e (player prev, False, \<lambda>n. c))"

definition enemyBlow0 :: "GameState \<Rightarrow> real \<Rightarrow> Enemy \<Rightarrow> Player \<times> bool \<Rightarrow> Player \<times> bool" where
  "enemyBlow0 prev c e ph =
     (case enemyStep0 prev e (fst ph, snd ph, \<lambda>n. c) of (e', p', h', r') \<Rightarrow> (p', h'))"

definition strikes0 :: "GameState \<Rightarrow> real \<Rightarrow> Enemy \<Rightarrow> bool" where
  "strikes0 prev c e =
     (enemy_hp e > 0
      \<and> pos_x (player prev) div VIEWPORT_WIDTH = pos_x e div VIEWPORT_WIDTH
      \<and> pos_y (player prev) div VIEWPORT_HEIGHT = pos_y e div VIEWPORT_HEIGHT
      \<and> fst (chase0 (player prev) e (\<lambda>n. c)) = (pos_x (player prev), pos_y (player prev)))"

text \<open>What a call of \<^verbatim>\<open>handleMove\<close> does with a direction: it is refused (a lock, a
  wall, in part_000 the edge of the world), it takes the player to another screen
  (part_000), it attacks the enemy on the tile, it steps onto the tile, or it steps
  onto the exit and so leaves the level. In part_000 the state update of the turn that a
  step runs starts from the state in which the direction has been recorded.\<close>

datatype MoveKind = Refused | ScreenChange | Melee | Step | Descent



definition moveKind1 :: "Direction \<Rightarrow> App \<Rightarrow> MoveKind" where
  "moveKind1 dir app =
     (let gs = gameState app
      in if animating app \<or> isPaused app then Refused
         else case stepDir dir (pos_x (player gs), pos_y (player gs)) of
           (tx, ty) \<Rightarrow>
             if tileAt (gs_map gs) ty tx = Some WALL then Refused
             else if find (atPos tx ty) (enemies gs) \<noteq> None then Melee
             else if optAt (gs_exit gs) tx ty then Descent else Step)"


definition turnOf1 :: "Tables \<Rightarrow> Direction \<Rightarrow> rng \<Rightarrow> App \<Rightarrow> (error + TurnResult) option" where
  "turnOf1 t dir r app =
     (let gs = gameState app; pl = player gs
      in if moveKind1 dir app = Melee
         then Some (processTurn1 (canPoison t) (pos_x pl) (pos_y pl) (createDamageNumber r) gs)
         else if moveKind1 dir app = Step \<or> moveKind1 dir app = Descent
         then (case stepDir dir (pos_x pl, pos_y pl) of
                 (tx, ty) \<Rightarrow> Some (processTurn1 (canPoison t) tx ty r gs))
         else None)"











text \<open>How far an arrow of part_001 can still fly: the tiles between the projectile and
  the edge of the map in its direction (the end of its row, for a flight to the right).\<close>

definition flightRoom :: "TileType list list \<Rightarrow> ArrowProjectile \<Rightarrow> nat" where
  "flightRoom m ap =
     (case direction ap of
        ArrowRight \<Rightarrow> nat ((case rowAt m (pos_y ap) of None \<Rightarrow> 0 | Some row \<Rightarrow> int (length row)) - pos_x ap)
      | ArrowLeft \<Rightarrow> nat (pos_x ap + 1)
      | ArrowDown \<Rightarrow> nat (int (length m) - pos_y ap)
      | ArrowUp \<Rightarrow> nat (pos_y ap + 1))"

section \<open>Properties\<close>

subsection \<open>Restart after death\<close>

lemma spread_append: "spread (fs @ gs) p = spread gs (spread fs p)"
  by (induction fs arbitrary: p) auto

text \<open>What a restart keeps whatever the class table holds: corruption and augments,
  and a new run at dungeon level 1.\<close>

lemma restart_keeps_corruption_augments:
  "corruption (player (gameState (restartGame1 classes gen app))) = corruption (player (gameState app))
   \<and> activeAugments (player (gameState (restartGame1 classes gen app)))
       = activeAugments (player (gameState app))
   \<and> gs_level (gameState (restartGame1 classes gen app)) = 1"
  by (simp add: restartGame1_def newGame_def retainedPlayer_def spread_append Let_def)

text \<open>With the table of constants.ts, the level and the class are kept and the
  experience is 0; but gold, maximum hit points and attack are those of the class,
  whatever the player had.\<close>

lemma restartGame0_player:
  "level (player (gameState (restartGame0 gen app))) = level (player (gameState app))
   \<and> playerClass (player (gameState (restartGame0 gen app))) = playerClass (player (gameState app))
   \<and> xp (player (gameState (restartGame0 gen app))) = 0
   \<and> gold (player (gameState (restartGame0 gen app)))
       = (if playerClass (player (gameState app)) = Sapper then 10 else 0)
   \<and> maxHp (player (gameState (restartGame0 gen app)))
       = (if playerClass (player (gameState app)) = Knight then 120 else 100)
   \<and> attack (player (gameState (restartGame0 gen app)))
       = (if playerClass (player (gameState app)) = Knight then 12 else 10)"
  by (cases "playerClass (player (gameState app))")
     (simp_all add: restartGame0_def newGame_def retainedPlayer_def Let_def)

text \<open>
  \<^bold>\<open>C1\<close>. The claim: after death the restart gives a run at dungeon level 1 whose
  player has half the gold, experience 0, and the level, maximum hit points, attack,
  class, corruption and augments of before. In \<^verbatim>\<open>retainedPlayer\<close> the class defaults
  are spread after the retained \<^verbatim>\<open>maxHp\<close>, \<^verbatim>\<open>attack\<close> and \<^verbatim>\<open>gold\<close>, and
  replace them: the veteran knight with 100 gold, 140 maximum hit points and attack 17
  restarts with 0 gold, 120 maximum hit points and attack 12 (level 3 and experience 0
  are as claimed). The same holds in part_001 when its class table lists these
  properties, as the table of constants.ts does.
\<close>

theorem restartGame_overwrites_retained_stats:
  "gold (player (gameState ex_veteran)) = 100
   \<and> maxHp (player (gameState ex_veteran)) = 140
   \<and> attack (player (gameState ex_veteran)) = 17
   \<and> gold (player (gameState (restartGame0 generateDungeon ex_veteran))) = 0
   \<and> maxHp (player (gameState (restartGame0 generateDungeon ex_veteran))) = 120
   \<and> attack (player (gameState (restartGame0 generateDungeon ex_veteran))) = 12
   \<and> level (player (gameState (restartGame0 generateDungeon ex_veteran))) = 3
   \<and> xp (player (gameState (restartGame0 generateDungeon ex_veteran))) = 0
   \<and> gs_level (gameState (restartGame0 generateDungeon ex_veteran)) = 1
   \<and> gold (player (gameState (restartGame1 PLAYER_CLASSES0 generateDungeon ex_veteran))) = 0
   \<and> maxHp (player (gameState (restartGame1 PLAYER_CLASSES0 generateDungeon ex_veteran))) = 120
   \<and> attack (player (gameState (restartGame1 PLAYER_CLASSES0 generateDungeon ex_veteran))) = 12"
  by (simp add: restartGame0_def restartGame1_def newGame_def retainedPlayer_def
      ex_veteran_def ex_app_def ex_state_def ex_player_def Let_def)

subsection \<open>Hit points after the enemy turn\<close>

text \<open>The state update of \<^verbatim>\<open>processTurn\<close> in part_000 never returns a living
  player with negative hit points: a death there sets them to 0.\<close>

lemma processTurnUpdate0_hp_nonneg:
  "hp (player prev) > 0 \<Longrightarrow> 0 \<le> hp (player (finalState (processTurnUpdate0 px py prev)))"
  by (simp add: processTurnUpdate0_def Let_def)

text \<open>
  \<^bold>\<open>C2\<close>. The claim: after every resolver the player's hit points lie between 0 and
  the maximum. \<^verbatim>\<open>processTurn\<close> and the melee branch of \<^verbatim>\<open>handleMove\<close> of part_000
  set the hit points of a dying player to 0; \<^verbatim>\<open>processEnemyTurn\<close> detects the same
  death and leaves them negative. The knight with 3 hit points, attacked by the
  goblin (5 plus a bonus of 1), is left with -3; in part_001, where nothing clamps, with
  -2.
\<close>

theorem processEnemyTurn_negative_hp:
  "hp (player ex_wounded) = 3
   \<and> maxHp (player ex_wounded) = 120
   \<and> hp (player (gameState (fst (processEnemyTurn0 ex_rng (ex_app\<lparr>gameState := ex_wounded\<rparr>))))) = - 3
   \<and> isGameOver (fst (processEnemyTurn0 ex_rng (ex_app\<lparr>gameState := ex_wounded\<rparr>)))
   \<and> (case processEnemyTurn1 (canPoison ex_tables) ex_rng ex_wounded of
         Inl e \<Rightarrow> 0 | Inr (s, over, r) \<Rightarrow> hp (player s)) = - 2"
  by (simp add: processEnemyTurn0_def enemyStep0_def enemyHits0_def chase0_def processEnemyTurn1_def
      enemyStep1_def ex_tables_def ex_wounded_def ex_app_def ex_state_def ex_player_def
      ex_enemy_def ex_rng_def rtl_def createDamageNumber_def Let_def VIEWPORT_WIDTH_def
      VIEWPORT_HEIGHT_def)

subsection \<open>Antidotes\<close>

text \<open>
  \<^bold>\<open>C3\<close>, as claimed: with poison and an antidote, using the antidote takes one
  antidote, clears the poison and resets the step counter to 0 at once. In part_000
  the counter is left as it is: the poisoned knight whose counter stands at 2 keeps
  the 2.
\<close>

theorem handleUseAntidote0_keeps_counter:
  "isPoisoned (player (gameState ex_poisoned))
   \<and> antidotes (player (gameState ex_poisoned)) = 1
   \<and> poisonStepCounter (player (gameState (handleUseAntidote0 ex_poisoned))) = 2"
  by (simp add: handleUseAntidote0_def ex_poisoned_def ex_app_def ex_state_def ex_player_def
      Let_def)

text \<open>In part_000 the counter is reset when a spider next poisons the player.\<close>

lemma enemyStep0_poison_resets_counter:
  "enemyStep0 prev enemy (p, h, r) = (e', p', h', r') \<Longrightarrow> \<not> isPoisoned p \<Longrightarrow> isPoisoned p'
   \<Longrightarrow> poisonStepCounter p' = 0"
  by (auto simp add: enemyStep0_def enemyHits0_def enemyAdvance0_def Let_def
      split: if_splits prod.splits)

text \<open>
  \<^bold>\<open>C3\<close>, amended: with poison and an antidote, using the antidote takes one antidote
  and clears the poison in both revisions, and the poison block of the next turn then
  leaves the player as it is (no tick, no damage). part_001 resets the step counter to
  0 at once; part_000 leaves the counter unchanged.
\<close>

theorem antidote_cures:
  assumes "isPoisoned (player (gameState app))" and "antidotes (player (gameState app)) > 0"
  shows "antidotes (player (gameState (handleUseAntidote0 app))) = antidotes (player (gameState app)) - 1
    \<and> \<not> isPoisoned (player (gameState (handleUseAntidote0 app)))
    \<and> poisonStepCounter (player (gameState (handleUseAntidote0 app)))
        = poisonStepCounter (player (gameState app))
    \<and> poisonTick0 (player (gameState (handleUseAntidote0 app)))
        = player (gameState (handleUseAntidote0 app))
    \<and> antidotes (player (gameState (useAntidote1 app))) = antidotes (player (gameState app)) - 1
    \<and> \<not> isPoisoned (player (gameState (useAntidote1 app)))
    \<and> poisonStepCounter (player (gameState (useAntidote1 app))) = 0
    \<and> poisonTick1 (player (gameState (useAntidote1 app))) = player (gameState (useAntidote1 app))"
  using assms
  by (simp add: handleUseAntidote0_def useAntidote1_def poisonTick0_def poisonTick1_def Let_def)

theorem antidote_cures_witness:
  "isPoisoned (player (gameState ex_poisoned)) \<and> antidotes (player (gameState ex_poisoned)) > 0
   \<and> antidotes (player (gameState (handleUseAntidote0 ex_poisoned))) = 0
   \<and> \<not> isPoisoned (player (gameState (handleUseAntidote0 ex_poisoned)))
   \<and> antidotes (player (gameState (useAntidote1 ex_poisoned))) = 0
   \<and> poisonStepCounter (player (gameState (useAntidote1 ex_poisoned))) = 0"
proof -
  have a: "isPoisoned (player (gameState ex_poisoned))"
    by (simp add: ex_poisoned_def ex_app_def ex_state_def ex_player_def)
  have b: "antidotes (player (gameState ex_poisoned)) > 0"
    by (simp add: ex_poisoned_def ex_app_def ex_state_def ex_player_def)
  have c: "antidotes (player (gameState ex_poisoned)) = 1"
    by (simp add: ex_poisoned_def ex_app_def ex_state_def ex_player_def)
  show ?thesis using antidote_cures [OF a b] a b c by simp
qed

subsection \<open>Placing bombs\<close>

text \<open>
  \<^bold>\<open>C6\<close>, as claimed: placing a bomb on a tile that holds one is rejected. \<^verbatim>\<open>placeBomb\<close>
  of part_001 has no such check: the knight standing on a bomb places a second one on
  the same tile and has one bomb less.
\<close>

theorem placeBomb1_stacks_bombs:
  "list_ex (atPos (pos_x (player (gameState ex_stacked))) (pos_y (player (gameState ex_stacked))))
       (gs_bombs (gameState ex_stacked))
   \<and> bombs (player (gameState ex_stacked)) = 1
   \<and> bombs (player (gameState (placeBomb1 7 ex_stacked))) = 0
   \<and> map (\<lambda>b. (pos_x b, pos_y b)) (gs_bombs (gameState (placeBomb1 7 ex_stacked)))
       = [(1, 1), (1, 1)]"
  by (simp add: placeBomb1_def ex_stacked_def atPos_def ex_app_def ex_state_def ex_player_def
      Let_def)

lemma tickBombs_positions:
  "map (\<lambda>b. (pos_x b, pos_y b)) (tickBombs bs) = map (\<lambda>b. (pos_x b, pos_y b)) bs"
  by (simp add: tickBombs_def)

lemma remainingBombs0_noStacked: "noStackedBombs bs \<Longrightarrow> noStackedBombs (remainingBombs0 bs)"
  unfolding noStackedBombs_def remainingBombs0_def
  using distinct_map_filter [of "\<lambda>b. (pos_x b, pos_y b)" "tickBombs bs"]
    tickBombs_positions [of bs]
  by simp

lemma processEnemyTurn0_bombs:
  "gs_bombs (gameState (fst (processEnemyTurn0 r app))) = gs_bombs (gameState app)"
  by (simp add: processEnemyTurn0_def Let_def split: prod.splits)

lemma melee0_bombs:
  "gs_bombs (gameState (fst (melee0 closure e r app))) = gs_bombs (gameState app)"
  by (simp add: melee0_def Let_def processEnemyTurn0_bombs)

lemma processTurn0_bombs:
  "gs_bombs (gameState (fst (processTurn0 px py r app)))
     = (if animating app then gs_bombs (gameState app) else remainingBombs0 (gs_bombs (gameState app)))"
  by (simp add: processTurn0_def processTurnUpdate0_def Let_def)

lemma followUp0_bombs:
  "gs_bombs (gameState (fst (followUp0 gen closure fu r app)))
     = (if fu = Some NextLevel then gs_bombs (gen (gs_level closure + 1)) else gs_bombs (gameState app))"
proof (cases fu)
  case None
  then show ?thesis by simp
next
  case (Some f)
  then show ?thesis
    by (cases f) (simp_all add: handleNextLevel_def newGame_def clearBlasts_def Let_def
        processEnemyTurn0_bombs split: prod.splits, metis processEnemyTurn0_bombs fst_conv)
qed

lemma handleMove0_noStacked:
  assumes "noStackedBombs (gs_bombs (gameState app))" and "\<And>l. noStackedBombs (gs_bombs (gen l))"
  shows "noStackedBombs (gs_bombs (gameState (fst (handleMove0 gen dir r app))))"
proof -
  obtain nx ny where st: "stepDir dir (pos_x (player (gameState app)), pos_y (player (gameState app))) = (nx, ny)"
    by (cases "stepDir dir (pos_x (player (gameState app)), pos_y (player (gameState app)))")
  let ?app1 = "app\<lparr>gameState := (gameState app)\<lparr>player := (player (gameState app))\<lparr>lastMoveDirection := Some dir\<rparr>\<rparr>\<rparr>"
  obtain app2 fu r1 where pt: "processTurn0 nx ny r ?app1 = (app2, fu, r1)"
    by (cases "processTurn0 nx ny r ?app1")
  have b2: "noStackedBombs (gs_bombs (gameState app2))"
    using processTurn0_bombs [of nx ny r ?app1] pt assms(1) remainingBombs0_noStacked [OF assms(1)]
    by (simp split: if_splits)
  have b3: "noStackedBombs (gs_bombs (gameState (fst (followUp0 gen (gameState app) fu r1 app2))))"
    using b2 assms(2) by (simp add: followUp0_bombs)
  show ?thesis
    using assms(1) st pt b3
    by (simp add: handleMove0_def Let_def melee0_bombs split: option.splits)
qed

lemma moveArrow0_bombs:
  "moveArrow0 n closure dir arrowPos r app = Some (app', r')
   \<Longrightarrow> gs_bombs (gameState app') = gs_bombs (gameState app)"
proof (induction n arbitrary: arrowPos app)
  case 0
  then show ?case by simp
next
  case (Suc n)
  obtain ax ay where st: "stepDir dir arrowPos = (ax, ay)" by (cases "stepDir dir arrowPos")
  let ?app1 = "app\<lparr>arrowProjectile := Some \<lparr>pos_x = ax, pos_y = ay, visible = True, direction = dir\<rparr>\<rparr>"
  show ?case
  proof (cases "tileAt (gs_map closure) ay ax \<noteq> Some WALL
                \<and> findIndex (\<lambda>e. atPos ax ay e \<and> enemy_hp e > 0) (enemies closure) = None")
    case True
    with Suc.prems st have "moveArrow0 n closure dir (ax, ay) r ?app1 = Some (app', r')"
      by (simp add: Let_def)
    from Suc.IH [OF this] show ?thesis by simp
  next
    case False
    with Suc.prems st show ?thesis
      by (auto simp add: Let_def split: option.splits if_splits)
  qed
qed

lemma handleFireArrow0_bombs:
  "handleFireArrow0 n r app = Some (app', r') \<Longrightarrow> gs_bombs (gameState app') = gs_bombs (gameState app)"
  by (auto simp add: handleFireArrow0_def Let_def split: if_splits option.splits
      dest!: moveArrow0_bombs)

text \<open>
  \<^bold>\<open>C6\<close>, amended to part_000: \<^verbatim>\<open>handleDropBomb\<close> leaves the whole state unchanged
  when the player's tile holds a bomb; and, the generated dungeons having no two bombs
  on one tile, a bomb list without two bombs on one tile stays so under every handler of
  part_000 modelled here: dropping a bomb, a move with the turn and the follow-ups it
  starts, the flight of an arrow, potion, antidote and restart.
\<close>

theorem handleDropBomb0_never_stacks:
  assumes "noStackedBombs (gs_bombs (gameState app))"
    and "\<forall>l. noStackedBombs (gs_bombs (generateDungeon l))"
  shows "(list_ex (atPos (pos_x (player (gameState app))) (pos_y (player (gameState app))))
              (gs_bombs (gameState app))
          \<longrightarrow> handleDropBomb0 now app = app)
     \<and> noStackedBombs (gs_bombs (gameState (handleDropBomb0 now app)))
     \<and> noStackedBombs (gs_bombs (gameState (fst (handleMove0 generateDungeon dir r app))))
     \<and> (case handleFireArrow0 n r app of None \<Rightarrow> True
         | Some (app', r') \<Rightarrow> noStackedBombs (gs_bombs (gameState app')))
     \<and> noStackedBombs (gs_bombs (gameState (handleUsePotion0 app)))
     \<and> noStackedBombs (gs_bombs (gameState (handleUseAntidote0 app)))
     \<and> noStackedBombs (gs_bombs (gameState (restartGame0 generateDungeon app)))"
proof -
  have 1: "noStackedBombs (gs_bombs (gameState (handleDropBomb0 now app)))"
    using assms(1)
    by (auto simp add: handleDropBomb0_def noStackedBombs_def Let_def list_ex_iff atPos_def)
  have 2: "noStackedBombs (gs_bombs (gameState (fst (handleMove0 generateDungeon dir r app))))"
    using handleMove0_noStacked [OF assms(1)] assms(2) by blast
  have 3: "(case handleFireArrow0 n r app of None \<Rightarrow> True
         | Some (app', r') \<Rightarrow> noStackedBombs (gs_bombs (gameState app')))"
    using assms(1) handleFireArrow0_bombs [of n r app]
    by (auto split: option.splits)
  have 4: "list_ex (atPos (pos_x (player (gameState app))) (pos_y (player (gameState app))))
              (gs_bombs (gameState app)) \<Longrightarrow> handleDropBomb0 now app = app"
    by (simp add: handleDropBomb0_def Let_def)
  have 5: "noStackedBombs (gs_bombs (gameState (handleUsePotion0 app)))"
    "noStackedBombs (gs_bombs (gameState (handleUseAntidote0 app)))"
    using assms(1) by (simp_all add: handleUsePotion0_def handleUseAntidote0_def Let_def)
  have 6: "noStackedBombs (gs_bombs (gameState (restartGame0 generateDungeon app)))"
    using assms(2) by (simp add: restartGame0_def newGame_def Let_def)
  show ?thesis using 1 2 3 4 5 6 by simp
qed

theorem handleDropBomb0_never_stacks_witness:
  "noStackedBombs (gs_bombs (gameState ex_stacked))
   \<and> list_ex (atPos (pos_x (player (gameState ex_stacked))) (pos_y (player (gameState ex_stacked))))
        (gs_bombs (gameState ex_stacked))
   \<and> handleDropBomb0 7 ex_stacked = ex_stacked
   \<and> noStackedBombs (gs_bombs (gameState (handleDropBomb0 7 ex_stacked)))
   \<and> noStackedBombs (gs_bombs (gameState (fst (handleMove0 (\<lambda>l. ex_state) ArrowRight ex_rng ex_stacked))))"
proof -
  have a: "noStackedBombs (gs_bombs (gameState ex_stacked))"
    by (simp add: noStackedBombs_def ex_stacked_def ex_app_def ex_state_def)
  have b: "list_ex (atPos (pos_x (player (gameState ex_stacked))) (pos_y (player (gameState ex_stacked))))
        (gs_bombs (gameState ex_stacked))"
    by (simp add: ex_stacked_def atPos_def ex_app_def ex_state_def ex_player_def)
  have c: "\<forall>l. noStackedBombs (gs_bombs ((\<lambda>l. ex_state) l))"
    by (simp add: noStackedBombs_def ex_state_def)
  show ?thesis
    using handleDropBomb0_never_stacks [OF a c, of 7 ArrowRight ex_rng 0] a b by simp
qed

subsection \<open>Moving into a wall\<close>

text \<open>
  \<^bold>\<open>C8\<close>, as claimed: a move into a wall changes nothing, \<^verbatim>\<open>lastMoveDirection\<close>
  included. \<^verbatim>\<open>handleMove\<close> of part_000 records the direction before it looks at the
  target tile: the knight who faced right and bumps into the wall above now faces up.
\<close>

theorem handleMove0_wall_turns_player:
  "\<not> inputLocked0 ex_app
   \<and> targetTile ArrowUp (gameState ex_app) = Some WALL
   \<and> lastMoveDirection (player (gameState ex_app)) = Some ArrowRight
   \<and> lastMoveDirection (player (gameState (fst (handleMove0 (\<lambda>l. ex_state) ArrowUp ex_rng ex_app))))
       = Some ArrowUp"
  by (simp add: handleMove0_def inputLocked0_def targetTile_def tileAt_def rowAt_def cellAt_def
      ex_app_def ex_state_def ex_player_def ex_map_def Let_def)

text \<open>
  \<^bold>\<open>C8\<close>, amended: when the target tile is a wall, \<^verbatim>\<open>handleMove\<close> of part_001 returns
  with the whole state as it was; \<^verbatim>\<open>handleMove\<close> of part_000 sets
  \<^verbatim>\<open>lastMoveDirection\<close> to the requested direction and changes nothing else (nothing
  at all while input is locked). In both no turn runs: position, hit points, bombs,
  poison counter and enemies are unchanged and no random number is drawn.
\<close>

theorem handleMove_wall_no_turn:
  assumes "targetTile dir (gameState app) = Some WALL"
  shows "handleMove1 t gen dir r app = Inr (app, r)
     \<and> (if inputLocked0 app then handleMove0 gen dir r app = (app, r)
        else handleMove0 gen dir r app =
          (app\<lparr>gameState := (gameState app)\<lparr>player :=
                  (player (gameState app))\<lparr>lastMoveDirection := Some dir\<rparr>\<rparr>\<rparr>, r))"
  using assms
  by (auto simp add: handleMove1_def handleMove0_def targetTile_def tileAt_def Let_def
      split: prod.splits option.splits)

theorem handleMove_wall_no_turn_witness:
  "targetTile ArrowUp (gameState ex_app) = Some WALL
   \<and> \<not> inputLocked0 ex_app
   \<and> handleMove1 ex_tables (\<lambda>l. ex_state) ArrowUp ex_rng ex_app = Inr (ex_app, ex_rng)
   \<and> handleMove0 (\<lambda>l. ex_state) ArrowUp ex_rng ex_app =
       (ex_app\<lparr>gameState := (gameState ex_app)\<lparr>player :=
           (player (gameState ex_app))\<lparr>lastMoveDirection := Some ArrowUp\<rparr>\<rparr>\<rparr>, ex_rng)"
proof -
  have a: "targetTile ArrowUp (gameState ex_app) = Some WALL"
    by (simp add: targetTile_def tileAt_def rowAt_def cellAt_def ex_app_def ex_state_def
        ex_player_def ex_map_def)
  have b: "\<not> inputLocked0 ex_app"
    by (simp add: inputLocked0_def ex_app_def)
  show ?thesis
    using handleMove_wall_no_turn [OF a, of ex_tables "\<lambda>l. ex_state" ex_rng] a b by simp
qed

subsection \<open>Arrows\<close>



text \<open>What the end of a flight of part_001 leaves: the state is the one
  \<^verbatim>\<open>processTurn\<close> returns for the effect's own \<^verbatim>\<open>gameState\<close>, whatever the
  latest state was and whatever was queued on it; the projectile is removed and the lock
  released. When the turn throws, so does the tick.\<close>

lemma arrowLands1_result:
  "arrowLands1 t closure r app =
     (case processTurn1 (canPoison t) (pos_x (player closure)) (pos_y (player closure)) r closure of
        Inl e \<Rightarrow> Inl e
      | Inr res \<Rightarrow>
          Inr (app\<lparr>arrowProjectile := None, animating := False, gameState := state1 res,
                   isGameOver := (if gameOver1 res then True else isGameOver app)\<rparr>, rng1 res))"
  by (simp add: arrowLands1_def commit1_def Let_def split: sum.splits)

lemma arrowLands1_overwrites:
  "map_sum id (\<lambda>(a, r'). (gameState a, r')) (arrowLands1 t closure r (app\<lparr>gameState := g\<rparr>))
     = map_sum id (\<lambda>(a, r'). (gameState a, r')) (arrowLands1 t closure r app)"
  by (simp add: arrowLands1_result split: sum.splits)




text \<open>The flight of part_001 ends on every map: a tick that does not end it moves the
  projectile one tile closer to the edge of the map, and outside the map no tile is
  floor. When the flight ends with a turn that returns, the projectile is removed and
  the lock released.\<close>

lemma tileAt_FLOOR_bounds:
  "tileAt m yy xx = Some FLOOR \<Longrightarrow>
     0 \<le> yy \<and> yy < int (length m) \<and> 0 \<le> xx
     \<and> (\<exists>row. rowAt m yy = Some row \<and> xx < int (length row))"
  by (auto simp add: tileAt_def rowAt_def cellAt_def split: if_splits option.splits)

lemma flightRoom_decreases:
  assumes "stepDir (direction ap) (pos_x ap, pos_y ap) = (ax, ay)"
    and "tileAt m ay ax = Some FLOOR"
  shows "flightRoom m (ap\<lparr>pos_x := ax, pos_y := ay\<rparr>) < flightRoom m ap"
  using assms tileAt_FLOOR_bounds [OF assms(2)]
  by (cases "direction ap") (auto simp add: flightRoom_def)

lemma arrowFlight1_lands_within:
  "arrowProjectile app = Some ap \<Longrightarrow> flightRoom (gs_map (gameState app)) ap \<le> k
   \<Longrightarrow> arrowFlight1 t (Suc k) r app \<noteq> None"
proof (induction k arbitrary: app ap)
  case 0
  obtain ax ay where st: "stepDir (direction ap) (pos_x ap, pos_y ap) = (ax, ay)"
    by (cases "stepDir (direction ap) (pos_x ap, pos_y ap)")
  have "tileAt (gs_map (gameState app)) ay ax \<noteq> Some FLOOR"
    using flightRoom_decreases [OF st] "0.prems"(2) by fastforce
  then show ?case using "0.prems"(1) st by (simp add: arrowTick1_def)
next
  case (Suc k)
  obtain ax ay where st: "stepDir (direction ap) (pos_x ap, pos_y ap) = (ax, ay)"
    by (cases "stepDir (direction ap) (pos_x ap, pos_y ap)")
  show ?case
  proof (cases "visible ap \<and> tileAt (gs_map (gameState app)) ay ax = Some FLOOR
                \<and> find (atPos ax ay) (enemies (gameState app)) = None")
    case True
    let ?ap = "ap\<lparr>pos_x := ax, pos_y := ay\<rparr>"
    let ?app = "app\<lparr>arrowProjectile := Some ?ap, animating := False\<rparr>"
    have "flightRoom (gs_map (gameState ?app)) ?ap \<le> k"
      using flightRoom_decreases [OF st, of "gs_map (gameState app)"] True Suc.prems(2) by simp
    from Suc.IH [OF _ this] have "arrowFlight1 t (Suc k) r ?app \<noteq> None" by simp
    then show ?thesis using Suc.prems(1) st True by (simp add: arrowTick1_def)
  next
    case False
    then show ?thesis using Suc.prems(1) st
      by (auto simp add: arrowTick1_def split: option.splits)
  qed
qed

lemma arrowFlight1_terminates: "\<exists>n. arrowFlight1 t n r app \<noteq> None"
proof (cases "arrowProjectile app")
  case None
  then have "arrowFlight1 t (Suc 0) r app \<noteq> None" by simp
  then show ?thesis by blast
next
  case (Some ap)
  from arrowFlight1_lands_within [OF Some order_refl, of t r] show ?thesis by blast
qed

lemma arrowLands1_unlocks:
  "arrowLands1 t closure r app = Inr (app', r') \<Longrightarrow> arrowProjectile app' = None \<and> \<not> animating app'"
  by (auto simp add: arrowLands1_def commit1_def Let_def split: sum.splits)

text \<open>On a row of three floor tiles with nothing behind it, an arrow flying right never
  stops.\<close>

lemma moveArrow0_open_row:
  "1 \<le> ax \<Longrightarrow> gs_map closure = [[FLOOR, FLOOR, FLOOR]] \<Longrightarrow> enemies closure = []
   \<Longrightarrow> moveArrow0 n closure ArrowRight (ax, 0) r app = None"
proof (induction n arbitrary: ax app)
  case 0
  then show ?case by simp
next
  case (Suc n)
  have "tileAt (gs_map closure) 0 (ax + 1) \<noteq> Some WALL"
    using Suc.prems by (auto simp add: tileAt_def rowAt_def cellAt_def nth_Cons' split: if_splits)
  moreover have "moveArrow0 n closure ArrowRight (ax + 1, 0) r app' = None" for app'
    using Suc.IH [of "ax + 1" app'] Suc.prems by simp
  ultimately show ?case using Suc.prems by (simp add: Let_def)
qed

text \<open>
  \<^bold>\<open>C10\<close>. The claim: for every map, position and direction the projectile is
  destroyed after finitely many steps (at a wall, at a living enemy, or on leaving the
  map) and the lock is released. \<^verbatim>\<open>moveArrow\<close> of part_000 stops at a wall tile and
  at a living enemy only; outside the map \<^verbatim>\<open>map[y]?.[x]\<close> is \<^verbatim>\<open>undefined\<close>, not a
  wall, and the step is scheduled again. On a row of three floor tiles with no wall at
  its end, an arrow shot to the right is still in flight after any number of steps, so
  \<^verbatim>\<open>arrowProjectile\<close> is never cleared and \<^verbatim>\<open>handleMove\<close> and
  \<^verbatim>\<open>handleFireArrow\<close> stay locked.
\<close>

theorem moveArrow0_never_lands: "handleFireArrow0 n r ex_open = None"
  by (simp add: handleFireArrow0_def inputLocked0_def ex_open_def ex_app_def ex_state_def
      ex_player_def Let_def moveArrow0_open_row)

subsection \<open>Picking up gold\<close>

lemma gold_poisonTick0: "gold (poisonTick0 p) = gold p"
  by (simp add: poisonTick0_def Let_def)

lemma gold_pickup0: "gold (pickup0 lvl ty p) = gold p + (if ty = GOLD then 5 + lvl else 0)"
  by (cases ty) simp_all

lemma gold_hazardStep0: "gold (hazardStep0 lvl ty p) = gold p"
  by (cases ty) (simp_all add: hazardStep0_def Let_def)

lemma find_atPos: "find (atPos px py) xs = Some it \<Longrightarrow> pos_x it = px \<and> pos_y it = py"
  by (auto simp add: find_Some_iff atPos_def)

lemma processTurnUpdate0_gold:
  assumes "find (atPos px py) (items prev) = Some it" and "item_type it = GOLD"
    and "\<not> optAt (wizard prev) px py" and "\<not> optAt (gs_exit prev) px py"
  shows "gold (player (finalState (processTurnUpdate0 px py prev)))
           = gold (player prev) + (if itemKey px py \<in> pickedUpItems prev then 0 else 5 + gs_level prev)"
    and "itemKey px py \<in> pickedUpItems (finalState (processTurnUpdate0 px py prev))"
    and "\<not> shouldExit (processTurnUpdate0 px py prev)"
  using assms find_atPos [OF assms(1)]
  by (simp_all add: processTurnUpdate0_def Let_def gold_poisonTick0 gold_pickup0 gold_hazardStep0
      split: option.splits)

text \<open>The enemy turn of part_000 and the timeouts after a turn leave the gold and the
  picked-up set as they are.\<close>

lemma gold_enemyHits0: "gold (enemyHits0 e rnd p) = gold p"
  by (simp add: enemyHits0_def Let_def)

lemma enemyStep0_gold:
  "enemyStep0 prev e (p, h, r) = (e', p', h', r') \<Longrightarrow> gold p' = gold p"
  by (auto simp add: enemyStep0_def gold_enemyHits0 Let_def split: if_splits prod.splits)

lemma enemiesMap0_gold:
  "enemiesMap0 prev es (p, h, r) = (es', p', h', r') \<Longrightarrow> gold p' = gold p"
proof (induction es arbitrary: p h r es')
  case Nil
  then show ?case by simp
next
  case (Cons e es)
  obtain e1 p1 h1 r1 where s: "enemyStep0 prev e (p, h, r) = (e1, p1, h1, r1)"
    by (cases "enemyStep0 prev e (p, h, r)") auto
  obtain es2 where m: "enemiesMap0 prev es (p1, h1, r1) = (es2, p', h', r')"
    using Cons.prems s by (auto split: prod.splits)
  from Cons.IH [OF m] enemyStep0_gold [OF s] show ?case by simp
qed

lemma processEnemyTurn0_keeps:
  "gold (player (gameState (fst (processEnemyTurn0 r app)))) = gold (player (gameState app))
   \<and> pickedUpItems (gameState (fst (processEnemyTurn0 r app))) = pickedUpItems (gameState app)"
proof -
  obtain es' p' h' r' where
    m: "enemiesMap0 (gameState app) (enemies (gameState app)) (player (gameState app), False, r)
          = (es', p', h', r')"
    by (cases "enemiesMap0 (gameState app) (enemies (gameState app)) (player (gameState app), False, r)")
       auto
  from enemiesMap0_gold [OF m] show ?thesis
    by (simp add: processEnemyTurn0_def m Let_def)
qed

lemma followUp0_keeps:
  assumes "fu \<noteq> Some NextLevel"
  shows "gold (player (gameState (fst (followUp0 gen closure fu r app)))) = gold (player (gameState app))
     \<and> pickedUpItems (gameState (fst (followUp0 gen closure fu r app))) = pickedUpItems (gameState app)"
proof (cases fu)
  case None
  then show ?thesis by simp
next
  case (Some f)
  show ?thesis
  proof (cases f)
    case NextLevel
    with Some assms show ?thesis by simp
  next
    case EnemyTurn
    obtain app' r' where e: "processEnemyTurn0 r app = (app', r')" by (cases "processEnemyTurn0 r app")
    from processEnemyTurn0_keeps [of r app] e Some EnemyTurn show ?thesis
      by (simp add: clearBlasts_def)
  next
    case Unlock
    with Some show ?thesis by (simp add: clearBlasts_def)
  qed
qed

text \<open>A move of part_000 onto a tile of another screen of the world: the player is
  put on the tile and the camera on the new screen; no turn runs, so nothing lying
  on the tile is picked up.\<close>

lemma handleMove0_screen_change:
  assumes "\<not> inputLocked0 app"
    and "stepDir dir (pos_x (player (gameState app)), pos_y (player (gameState app))) = (nx, ny)"
    and "tileAt (gs_map (gameState app)) ny nx \<noteq> Some WALL"
    and "\<not> (pos_x (camera (gameState app)) = nx div VIEWPORT_WIDTH
            \<and> pos_y (camera (gameState app)) = ny div VIEWPORT_HEIGHT)"
    and "0 \<le> nx div VIEWPORT_WIDTH \<and> nx div VIEWPORT_WIDTH < WORLD_SCREENS_W
         \<and> 0 \<le> ny div VIEWPORT_HEIGHT \<and> ny div VIEWPORT_HEIGHT < WORLD_SCREENS_H"
  shows "handleMove0 gen dir r app
     = (app\<lparr>gameState := (gameState app)
            \<lparr>player := (player (gameState app))\<lparr>lastMoveDirection := Some dir, pos_x := nx, pos_y := ny\<rparr>,
             camera := \<lparr>pos_x = nx div VIEWPORT_WIDTH, pos_y = ny div VIEWPORT_HEIGHT\<rparr>\<rparr>\<rparr>, r)"
  using assms by (simp add: handleMove0_def Let_def)

lemma handleMove0_screen_change_no_pickup:
  "\<not> inputLocked0 ex_border
   \<and> find (atPos 13 0) (items (gameState ex_border)) = Some \<lparr>pos_x = 13, pos_y = 0, item_type = GOLD\<rparr>
   \<and> pickedUpItems (gameState ex_border) = {}
   \<and> gold (player (gameState ex_border)) = 100
   \<and> pos_x (player (gameState (fst (handleMove0 gen ArrowRight r ex_border)))) = 13
   \<and> pos_y (player (gameState (fst (handleMove0 gen ArrowRight r ex_border)))) = 0
   \<and> gold (player (gameState (fst (handleMove0 gen ArrowRight r ex_border)))) = 100
   \<and> pickedUpItems (gameState (fst (handleMove0 gen ArrowRight r ex_border))) = {}"
proof -
  have a: "\<not> inputLocked0 ex_border" by (simp add: inputLocked0_def ex_border_def ex_app_def)
  have b: "stepDir ArrowRight (pos_x (player (gameState ex_border)), pos_y (player (gameState ex_border)))
      = (13, 0)"
    by (simp add: ex_border_def ex_app_def ex_state_def ex_player_def)
  have c: "tileAt (gs_map (gameState ex_border)) 0 13 \<noteq> Some WALL"
    by (simp add: tileAt_def rowAt_def cellAt_def ex_border_def ex_app_def ex_state_def)
  have d: "\<not> (pos_x (camera (gameState ex_border)) = 13 div VIEWPORT_WIDTH
            \<and> pos_y (camera (gameState ex_border)) = 0 div VIEWPORT_HEIGHT)"
    by (simp add: ex_border_def ex_app_def ex_state_def VIEWPORT_WIDTH_def)
  have e: "0 \<le> 13 div VIEWPORT_WIDTH \<and> 13 div VIEWPORT_WIDTH < WORLD_SCREENS_W
         \<and> 0 \<le> 0 div VIEWPORT_HEIGHT \<and> 0 div VIEWPORT_HEIGHT < WORLD_SCREENS_H"
    by (simp add: VIEWPORT_WIDTH_def VIEWPORT_HEIGHT_def WORLD_SCREENS_W_def WORLD_SCREENS_H_def)
  show ?thesis
    using a by (simp add: handleMove0_screen_change [OF a b c d e])
               (simp add: ex_border_def ex_app_def ex_state_def ex_player_def atPos_def)
qed

lemma enemyStep1_gold:
  "enemyStep1 cp m i (es, p, tk, r) = Inr (es', p', tk', r') \<Longrightarrow> gold p' = gold p"
  by (auto simp add: enemyStep1_def Let_def split: if_splits option.splits)

lemma enemyLoop1_gold:
  "enemyLoop1 cp m n i (es, p, tk, r) = Inr (es', p', tk', r') \<Longrightarrow> gold p' = gold p"
proof (induction n arbitrary: i es p tk r)
  case 0
  then show ?case by simp
next
  case (Suc n)
  from Suc.prems obtain es1 p1 tk1 r1 where
    s: "enemyStep1 cp m i (es, p, tk, r) = Inr (es1, p1, tk1, r1)"
    and l: "enemyLoop1 cp m n (Suc i) (es1, p1, tk1, r1) = Inr (es', p', tk', r')"
    by (auto split: sum.splits)
  from Suc.IH [OF l] enemyStep1_gold [OF s] show ?case by simp
qed

lemma processEnemyTurn1_keeps:
  assumes "processEnemyTurn1 cp r gs = Inr (gs', over, r')"
  shows "gold (player gs') = gold (player gs) \<and> items gs' = items gs
     \<and> pickedUpItems gs' = pickedUpItems gs \<and> altars gs' = altars gs \<and> gs_exit gs' = gs_exit gs
     \<and> wizard gs' = wizard gs"
  using assms enemyLoop1_gold
  by (fastforce simp add: processEnemyTurn1_def split: sum.splits prod.splits)

lemma gold_processAugmentEffects1: "gold (processAugmentEffects1 p) = gold p"
  by (simp add: processAugmentEffects1_def Let_def)

lemma gold_poisonTick1: "gold (poisonTick1 p) = gold p"
  by (simp add: poisonTick1_def Let_def)

lemma processTurn1_keeps:
  assumes "processTurn1 cp px py r gs = Inr res"
  shows "gold (player (state1 res)) = gold (player gs) \<and> items (state1 res) = items gs
     \<and> pickedUpItems (state1 res) = pickedUpItems gs \<and> altars (state1 res) = altars gs
     \<and> gs_exit (state1 res) = gs_exit gs \<and> wizard (state1 res) = wizard gs"
proof -
  from assms obtain mid fin over rr r' where
    e: "processEnemyTurn1 cp rr mid = Inr (fin, over, r')" and s: "state1 res = fin"
    and m: "gold (player mid) = gold (player gs) \<and> items mid = items gs
     \<and> pickedUpItems mid = pickedUpItems gs \<and> altars mid = altars gs \<and> gs_exit mid = gs_exit gs
     \<and> wizard mid = wizard gs"
    by (auto simp add: processTurn1_def Let_def gold_processAugmentEffects1 gold_poisonTick1
        split: sum.splits prod.splits)
  from processEnemyTurn1_keeps [OF e] m s show ?thesis by simp
qed

lemma gold_pickup1: "gold (pickup1 ty p) = gold p + (if ty = GOLD then 10 else 0)"
  by (cases ty) simp_all

lemma move1_gold:
  assumes "move1 t gen dir tx ty r app = Inr (app', r')"
    and "find (atPos tx ty) (items (gameState app)) = Some it" and "item_type it = GOLD"
    and "\<not> list_ex (atPos tx ty) (altars (gameState app))"
    and "\<not> optAt (gs_exit (gameState app)) tx ty"
  shows "gold (player (gameState app'))
           = gold (player (gameState app)) + (if itemKey tx ty \<in> pickedUpItems (gameState app) then 0 else 10)"
    and "itemKey tx ty \<in> pickedUpItems (gameState app')"
proof -
  from assms(1) obtain res where p: "processTurn1 (canPoison t) tx ty r (gameState app) = Inr res"
    by (cases "processTurn1 (canPoison t) tx ty r (gameState app)") (simp_all add: move1_def)
  note k = processTurn1_keeps [OF p]
  note at = find_atPos [OF assms(2)]
  let ?p0 = "(player (state1 res))\<lparr>lastMoveDirection := Some dir\<rparr>"
  let ?fresh = "itemKey tx ty \<notin> pickedUpItems (gameState app)"
  have st: "gameState app'
      = (state1 res)\<lparr>player := (if ?fresh then pickup1 GOLD ?p0 else ?p0),
                      pickedUpItems := (if ?fresh then insert (itemKey tx ty) (pickedUpItems (gameState app))
                                        else pickedUpItems (gameState app)),
                      camera := \<lparr>pos_x = tx div viewportW t, pos_y = ty div viewportH t\<rparr>,
                      activeBlasts := []\<rparr>"
    using assms(1) [symmetric] assms(2-) p k at by (simp add: move1_def Let_def)
  show "gold (player (gameState app'))
           = gold (player (gameState app)) + (if itemKey tx ty \<in> pickedUpItems (gameState app) then 0 else 10)"
    using k by (simp add: st)
  show "itemKey tx ty \<in> pickedUpItems (gameState app')"
    by (simp add: st)
qed

text \<open>A step of part_000 onto a tile of the current screen that holds no living enemy
  and is not the exit: the turn runs, then the enemy turn or the release of the lock.\<close>

lemma handleMove0_step:
  assumes "\<not> inputLocked0 app"
    and "stepDir dir (pos_x (player (gameState app)), pos_y (player (gameState app))) = (px, py)"
    and "tileAt (gs_map (gameState app)) py px \<noteq> Some WALL"
    and "pos_x (camera (gameState app)) = px div VIEWPORT_WIDTH
         \<and> pos_y (camera (gameState app)) = py div VIEWPORT_HEIGHT"
    and "find (\<lambda>e. atPos px py e \<and> enemy_hp e > 0) (enemies (gameState app)) = None"
    and "out = processTurnUpdate0 px py
                 ((gameState app)\<lparr>player := (player (gameState app))\<lparr>lastMoveDirection := Some dir\<rparr>\<rparr>)"
  shows "handleMove0 gen dir r app
      = followUp0 gen (gameState app)
          (Some (if shouldExit out then NextLevel
                 else if shouldEnemiesMove out then EnemyTurn else Unlock))
          ((createDamageNumber ^^ numbers out) r)
          (app\<lparr>gameState := finalState out,
               animating := True,
               isShopping := (if openShop out then True else isShopping app),
               isGameOver := (if died out then True else isGameOver app)\<rparr>)"
proof -
  have na: "\<not> animating app" using assms(1) by (simp add: inputLocked0_def)
  show ?thesis
    using assms(1-5) na unfolding assms(6)
    by (simp add: handleMove0_def processTurn0_def Let_def)
qed

text \<open>
  \<^bold>\<open>C4\<close>, as claimed: a fresh gold item at dungeon level L gives exactly 5 + L gold
  (8 at level 3). \<^verbatim>\<open>handleMove\<close> of part_001 gives 10 whatever the level: at level
  3 the knight with 100 gold who steps onto the gold has 110.
\<close>

theorem handleMove1_gold_is_ten:
  "gs_level (gameState ex_treasure) = 3
   \<and> gold (player (gameState ex_treasure)) = 100
   \<and> find (atPos 2 1) (items (gameState ex_treasure)) = Some \<lparr>pos_x = 2, pos_y = 1, item_type = GOLD\<rparr>
   \<and> pickedUpItems (gameState ex_treasure) = {}
   \<and> (case handleMove1 ex_tables (\<lambda>l. ex_state) ArrowRight ex_rng ex_treasure of
         Inr (app', r') \<Rightarrow> gold (player (gameState app')) | Inl e \<Rightarrow> 0) = 110"
  by (simp add: handleMove1_def move1_def processTurn1_def
      processEnemyTurn1_def processAugmentEffects1_def poisonTick1_def
      tileAt_def rowAt_def cellAt_def atPos_def optAt_def
      ex_treasure_def ex_tables_def ex_app_def ex_state_def ex_player_def ex_map_def
      ex_rng_def Let_def)

text \<open>
  \<^bold>\<open>C4\<close>, amended. part_000: when \<^verbatim>\<open>handleMove\<close> is not locked and the tile it
  looks at is not a wall, lies on the screen the camera shows, holds no living enemy,
  is neither the wizard's nor the exit, and its first item is gold, the move (with the
  turn and the enemy turn it starts) adds exactly 5 + L gold if the tile's key is not
  yet in the picked-up set and nothing if it is, and the key is in the set afterwards
  (so a second step grants nothing). A move onto a tile of another screen puts the
  player there without a turn and picks up nothing (\<open>handleMove0_screen_change\<close>).
  part_001: when the move is carried out (no lock, no wall, no enemy on the tile) onto
  a tile whose first item is gold and that holds neither altar nor exit, it adds exactly
  10 gold, whatever the level, if the key is not yet in the set and nothing if it is,
  and the key is in the set afterwards.
\<close>

theorem gold_pickup_once:
  "(\<not> inputLocked0 app0
     \<and> stepDir dir0 (pos_x (player (gameState app0)), pos_y (player (gameState app0))) = (px, py)
     \<and> targetTile dir0 (gameState app0) \<noteq> Some WALL
     \<and> pos_x (camera (gameState app0)) = px div VIEWPORT_WIDTH
     \<and> pos_y (camera (gameState app0)) = py div VIEWPORT_HEIGHT
     \<and> find (\<lambda>e. atPos px py e \<and> enemy_hp e > 0) (enemies (gameState app0)) = None
     \<and> find (atPos px py) (items (gameState app0)) = Some it \<and> item_type it = GOLD
     \<and> \<not> optAt (wizard (gameState app0)) px py \<and> \<not> optAt (gs_exit (gameState app0)) px py
    \<longrightarrow> gold (player (gameState (fst (handleMove0 gen0 dir0 r0 app0))))
          = gold (player (gameState app0))
            + (if itemKey px py \<in> pickedUpItems (gameState app0) then 0 else 5 + gs_level (gameState app0))
      \<and> itemKey px py \<in> pickedUpItems (gameState (fst (handleMove0 gen0 dir0 r0 app0))))
   \<and> (\<not> animating app \<and> \<not> isPaused app
      \<and> stepDir dir (pos_x (player (gameState app)), pos_y (player (gameState app))) = (tx, ty)
      \<and> targetTile dir (gameState app) \<noteq> Some WALL
      \<and> find (atPos tx ty) (enemies (gameState app)) = None
      \<and> find (atPos tx ty) (items (gameState app)) = Some itm \<and> item_type itm = GOLD
      \<and> \<not> list_ex (atPos tx ty) (altars (gameState app))
      \<and> \<not> optAt (gs_exit (gameState app)) tx ty
      \<and> handleMove1 t gen dir r app = Inr (app', r')
    \<longrightarrow> gold (player (gameState app'))
          = gold (player (gameState app))
            + (if itemKey tx ty \<in> pickedUpItems (gameState app) then 0 else 10)
      \<and> itemKey tx ty \<in> pickedUpItems (gameState app'))"
proof (intro conjI impI)
  assume h: "\<not> inputLocked0 app0
     \<and> stepDir dir0 (pos_x (player (gameState app0)), pos_y (player (gameState app0))) = (px, py)
     \<and> targetTile dir0 (gameState app0) \<noteq> Some WALL
     \<and> pos_x (camera (gameState app0)) = px div VIEWPORT_WIDTH
     \<and> pos_y (camera (gameState app0)) = py div VIEWPORT_HEIGHT
     \<and> find (\<lambda>e. atPos px py e \<and> enemy_hp e > 0) (enemies (gameState app0)) = None
     \<and> find (atPos px py) (items (gameState app0)) = Some it \<and> item_type it = GOLD
     \<and> \<not> optAt (wizard (gameState app0)) px py \<and> \<not> optAt (gs_exit (gameState app0)) px py"
  let ?prev = "(gameState app0)\<lparr>player := (player (gameState app0))\<lparr>lastMoveDirection := Some dir0\<rparr>\<rparr>"
  let ?out = "processTurnUpdate0 px py ?prev"
  from h have st: "stepDir dir0 (pos_x (player (gameState app0)), pos_y (player (gameState app0))) = (px, py)"
    and tt: "targetTile dir0 (gameState app0) \<noteq> Some WALL"
    by blast+
  from tt have w: "tileAt (gs_map (gameState app0)) py px \<noteq> Some WALL"
    by (simp add: targetTile_def st)
  let ?fu = "if shouldExit ?out then NextLevel
             else if shouldEnemiesMove ?out then EnemyTurn else Unlock"
  let ?app2 = "app0\<lparr>gameState := finalState ?out, animating := True,
                isShopping := (if openShop ?out then True else isShopping app0),
                isGameOver := (if died ?out then True else isGameOver app0)\<rparr>"
  from h w have m: "handleMove0 gen0 dir0 r0 app0
      = followUp0 gen0 (gameState app0) (Some ?fu) ((createDamageNumber ^^ numbers ?out) r0) ?app2"
    using handleMove0_step [of app0 dir0 px py ?out gen0 r0] by blast
  from h have i: "find (atPos px py) (items ?prev) = Some it" "item_type it = GOLD"
    "\<not> optAt (wizard ?prev) px py" "\<not> optAt (gs_exit ?prev) px py"
    by simp_all
  note g = processTurnUpdate0_gold [OF i]
  from g(3) have nl: "Some ?fu \<noteq> Some NextLevel" by simp
  note k = followUp0_keeps [OF nl, of gen0 "gameState app0" "(createDamageNumber ^^ numbers ?out) r0" ?app2]
  show "gold (player (gameState (fst (handleMove0 gen0 dir0 r0 app0))))
          = gold (player (gameState app0))
            + (if itemKey px py \<in> pickedUpItems (gameState app0) then 0 else 5 + gs_level (gameState app0))"
    using k g(1) by (simp add: m)
  show "itemKey px py \<in> pickedUpItems (gameState (fst (handleMove0 gen0 dir0 r0 app0)))"
    using k g(2) by (simp add: m)
next
  assume h: "\<not> animating app \<and> \<not> isPaused app
      \<and> stepDir dir (pos_x (player (gameState app)), pos_y (player (gameState app))) = (tx, ty)
      \<and> targetTile dir (gameState app) \<noteq> Some WALL
      \<and> find (atPos tx ty) (enemies (gameState app)) = None
      \<and> find (atPos tx ty) (items (gameState app)) = Some itm \<and> item_type itm = GOLD
      \<and> \<not> list_ex (atPos tx ty) (altars (gameState app))
      \<and> \<not> optAt (gs_exit (gameState app)) tx ty
      \<and> handleMove1 t gen dir r app = Inr (app', r')"
  then have m: "move1 t gen dir tx ty r app = Inr (app', r')"
    by (auto simp add: handleMove1_def targetTile_def tileAt_def Let_def
        split: option.splits if_splits)
  from h move1_gold(1) [OF m, of itm]
  show "gold (player (gameState app'))
          = gold (player (gameState app))
            + (if itemKey tx ty \<in> pickedUpItems (gameState app) then 0 else 10)"
    by blast
  from h move1_gold(2) [OF m, of itm]
  show "itemKey tx ty \<in> pickedUpItems (gameState app')" by blast
qed

theorem gold_pickup_once_witness:
  "\<not> inputLocked0 ex_treasure
   \<and> find (atPos 2 1) (items (gameState ex_treasure)) = Some \<lparr>pos_x = 2, pos_y = 1, item_type = GOLD\<rparr>
   \<and> itemKey 2 1 \<notin> pickedUpItems (gameState ex_treasure)
   \<and> gs_level (gameState ex_treasure) = 3
   \<and> gold (player (gameState ex_treasure)) = 100
   \<and> gold (player (gameState (fst (handleMove0 (\<lambda>l. ex_state) ArrowRight ex_rng ex_treasure)))) = 108
   \<and> itemKey 2 1 \<in> pickedUpItems (gameState (fst (handleMove0 (\<lambda>l. ex_state) ArrowRight ex_rng ex_treasure)))
   \<and> gold (player (gameState (fst (handleMove0 (\<lambda>l. ex_state) ArrowRight ex_rng ex_collected)))) = 100
   \<and> (case handleMove1 ex_tables (\<lambda>l. ex_state) ArrowRight ex_rng ex_treasure of
         Inr (app', r') \<Rightarrow> gold (player (gameState app')) = 110
                          \<and> itemKey 2 1 \<in> pickedUpItems (gameState app')
       | Inl e \<Rightarrow> False)"
proof -
  let ?gold = "\<lparr>pos_x = 2, pos_y = 1, item_type = GOLD\<rparr>"
  have defs: "gameState ex_treasure = ex_state\<lparr>items := [?gold]\<rparr>"
    by (simp add: ex_treasure_def ex_app_def)
  have defs': "gameState ex_collected = ex_state\<lparr>items := [?gold], pickedUpItems := {itemKey 2 1}\<rparr>"
    by (simp add: ex_collected_def ex_treasure_def ex_app_def)
  have a: "find (atPos 2 1) (items (gameState ex_treasure)) = Some ?gold"
    "find (atPos 2 1) (items (gameState ex_collected)) = Some ?gold"
    by (simp_all add: defs defs' atPos_def ex_state_def)
  have b: "itemKey 2 1 \<notin> pickedUpItems (gameState ex_treasure)"
    "itemKey 2 1 \<in> pickedUpItems (gameState ex_collected)"
    by (simp_all add: defs defs' ex_state_def)
  have c: "gs_level (gameState ex_treasure) = 3 \<and> gold (player (gameState ex_treasure)) = 100"
    "gs_level (gameState ex_collected) = 3 \<and> gold (player (gameState ex_collected)) = 100"
    by (simp_all add: defs defs' ex_state_def ex_player_def)
  have d: "\<not> optAt (wizard (gameState ex_treasure)) 2 1 \<and> \<not> optAt (gs_exit (gameState ex_treasure)) 2 1
     \<and> \<not> list_ex (atPos 2 1) (altars (gameState ex_treasure))
     \<and> find (atPos 2 1) (enemies (gameState ex_treasure)) = None
     \<and> find (\<lambda>e. atPos 2 1 e \<and> enemy_hp e > 0) (enemies (gameState ex_treasure)) = None"
    "\<not> optAt (wizard (gameState ex_collected)) 2 1 \<and> \<not> optAt (gs_exit (gameState ex_collected)) 2 1
     \<and> find (\<lambda>e. atPos 2 1 e \<and> enemy_hp e > 0) (enemies (gameState ex_collected)) = None"
    by (simp_all add: defs defs' optAt_def ex_state_def)
  have e: "\<not> animating ex_treasure \<and> \<not> isPaused ex_treasure \<and> \<not> inputLocked0 ex_treasure"
    "\<not> inputLocked0 ex_collected"
    by (simp_all add: inputLocked0_def ex_collected_def ex_treasure_def ex_app_def)
  have f: "stepDir ArrowRight (pos_x (player (gameState ex_treasure)), pos_y (player (gameState ex_treasure))) = (2, 1)"
    "stepDir ArrowRight (pos_x (player (gameState ex_collected)), pos_y (player (gameState ex_collected))) = (2, 1)"
    by (simp_all add: defs defs' ex_state_def ex_player_def)
  have g: "targetTile ArrowRight (gameState ex_treasure) \<noteq> Some WALL"
    "targetTile ArrowRight (gameState ex_collected) \<noteq> Some WALL"
    by (simp_all add: targetTile_def tileAt_def rowAt_def cellAt_def defs defs' ex_state_def
        ex_player_def ex_map_def)
  have s: "pos_x (camera (gameState ex_treasure)) = 2 div VIEWPORT_WIDTH
     \<and> pos_y (camera (gameState ex_treasure)) = 1 div VIEWPORT_HEIGHT"
    "pos_x (camera (gameState ex_collected)) = 2 div VIEWPORT_WIDTH
     \<and> pos_y (camera (gameState ex_collected)) = 1 div VIEWPORT_HEIGHT"
    by (simp_all add: defs defs' ex_state_def VIEWPORT_WIDTH_def VIEWPORT_HEIGHT_def)
  obtain app' r' where
    m: "handleMove1 ex_tables (\<lambda>l. ex_state) ArrowRight ex_rng ex_treasure = Inr (app', r')"
    by (simp add: handleMove1_def move1_def processTurn1_def
      processEnemyTurn1_def processAugmentEffects1_def poisonTick1_def
      tileAt_def rowAt_def cellAt_def atPos_def optAt_def
      ex_treasure_def ex_tables_def ex_app_def ex_state_def ex_player_def ex_map_def
      ex_rng_def Let_def)
  note T = gold_pickup_once [where px = 2 and py = 1 and app0 = ex_treasure and dir0 = ArrowRight
      and gen0 = "\<lambda>l. ex_state" and r0 = ex_rng
      and it = ?gold and app = ex_treasure and dir = ArrowRight and tx = 2 and ty = 1
      and itm = ?gold and t = ex_tables and gen = "\<lambda>l. ex_state" and r = ex_rng
      and app' = app' and r' = r']
  note U = gold_pickup_once [where px = 2 and py = 1 and app0 = ex_collected and dir0 = ArrowRight
      and gen0 = "\<lambda>l. ex_state" and r0 = ex_rng
      and it = ?gold and app = ex_treasure and dir = ArrowRight and tx = 2 and ty = 1
      and itm = ?gold and t = ex_tables and gen = "\<lambda>l. ex_state" and r = ex_rng
      and app' = app' and r' = r']
  from T a(1) b(1) c(1) d(1) e(1) f(1) g(1) s(1) have v0:
    "gold (player (gameState (fst (handleMove0 (\<lambda>l. ex_state) ArrowRight ex_rng ex_treasure)))) = 108
     \<and> itemKey 2 1 \<in> pickedUpItems (gameState (fst (handleMove0 (\<lambda>l. ex_state) ArrowRight ex_rng ex_treasure)))"
    by simp
  from U a(2) b(2) c(2) d(2) e(2) f(2) g(2) s(2) have v2:
    "gold (player (gameState (fst (handleMove0 (\<lambda>l. ex_state) ArrowRight ex_rng ex_collected)))) = 100"
    by simp
  from T a(1) b(1) c(1) d(1) e(1) f(1) g(1) m have v1:
    "gold (player (gameState app')) = 110 \<and> itemKey 2 1 \<in> pickedUpItems (gameState app')"
    by simp
  show ?thesis using a(1) b(1) c(1) e(1) v0 v1 v2 by (simp add: m)
qed

subsection \<open>The enemy turn and the order of the enemies\<close>

lemma rtl_const [simp]: "rtl (\<lambda>n. c) = (\<lambda>n. c)"
  by (simp add: rtl_def)

lemma createDamageNumber_const [simp]: "createDamageNumber (\<lambda>n. c) = (\<lambda>n. c)"
  by (simp add: createDamageNumber_def)

lemma chase0_const: "snd (chase0 pl e (\<lambda>n. c)) = (\<lambda>n. c)"
  by (simp add: chase0_def Let_def)

lemma enemyStep0_snapshot:
  "fst (enemyStep0 prev e (p, h, r)) = fst (enemyStep0 prev e (p', h', r))"
  by (simp add: enemyStep0_def Let_def split: prod.splits)

lemma enemyStep0_const:
  "enemyStep0 prev e (p, h, \<lambda>n. c) = (enemyMove0 prev c e, fst (enemyBlow0 prev c e (p, h)), snd (enemyBlow0 prev c e (p, h)), \<lambda>n. c)"
proof -
  obtain dest r1 where ch: "chase0 (player prev) e (\<lambda>n. c) = (dest, r1)" by (cases "chase0 (player prev) e (\<lambda>n. c)")
  with chase0_const [of "player prev" e c] have r1: "r1 = (\<lambda>n. c)" by simp
  show ?thesis
    using ch r1
    by (simp add: enemyMove0_def enemyBlow0_def enemyStep0_def Let_def split: prod.splits)
qed

lemma enemiesMap0_const:
  "enemiesMap0 prev es (p, h, \<lambda>n. c)
     = (map (enemyMove0 prev c) es, fst (fold (enemyBlow0 prev c) es (p, h)),
        snd (fold (enemyBlow0 prev c) es (p, h)), \<lambda>n. c)"
proof (induction es arbitrary: p h)
  case Nil
  then show ?case by simp
next
  case (Cons e es)
  show ?case
    by (simp add: enemyStep0_const Cons.IH [of "fst (enemyBlow0 prev c e (p, h))" "snd (enemyBlow0 prev c e (p, h))"])
qed


lemma enemyHits0_commute:
  "enemyHits0 e1 c (enemyHits0 e2 c p) = enemyHits0 e2 c (enemyHits0 e1 c p)"
  by (simp add: enemyHits0_def Let_def)

lemma enemyBlow0_eq:
  "enemyBlow0 prev c e (p, h) = (if strikes0 prev c e then (enemyHits0 e c p, True) else (p, h))"
proof -
  obtain dest r1 where ch: "chase0 (player prev) e (\<lambda>n. c) = (dest, r1)" by (cases "chase0 (player prev) e (\<lambda>n. c)")
  with chase0_const [of "player prev" e c] have r1: "r1 = (\<lambda>n. c)" by simp
  show ?thesis using ch r1
    by (auto simp add: enemyBlow0_def enemyStep0_def strikes0_def Let_def split: prod.splits)
qed

lemma enemyBlow0_commute:
  "enemyBlow0 prev c e1 (enemyBlow0 prev c e2 ph) = enemyBlow0 prev c e2 (enemyBlow0 prev c e1 ph)"
  by (cases ph) (simp add: enemyBlow0_eq enemyHits0_commute)

lemma fold_enemyBlow0_perm:
  assumes "mset es' = mset es"
  shows "fold (enemyBlow0 prev c) es' ph = fold (enemyBlow0 prev c) es ph"
proof -
  have "fold (enemyBlow0 prev c) es' = fold (enemyBlow0 prev c) es"
    by (rule fold_multiset_equiv) (auto simp add: fun_eq_iff enemyBlow0_commute assms)
  then show ?thesis by simp
qed

lemma enemyBlow0_enemies:
  "enemyBlow0 (prev\<lparr>enemies := es\<rparr>) c e ph = enemyBlow0 prev c e ph"
  by (cases ph) (simp add: enemyBlow0_eq strikes0_def)

lemma enemyAdvance0_perm:
  assumes "set es' = set es"
  shows "enemyAdvance0 (prev\<lparr>enemies := es'\<rparr>) e a b = enemyAdvance0 (prev\<lparr>enemies := es\<rparr>) e a b"
  using assms by (simp add: enemyAdvance0_def list_ex_iff Let_def)

lemma enemyMove0_perm:
  assumes "set es' = set es"
  shows "enemyMove0 (prev\<lparr>enemies := es'\<rparr>) c e = enemyMove0 (prev\<lparr>enemies := es\<rparr>) c e"
  using enemyAdvance0_perm [OF assms]
  by (simp add: enemyMove0_def enemyStep0_def Let_def split: prod.splits)


lemma processEnemyTurn0_const:
  "processEnemyTurn0 (\<lambda>n. c) app =
     (app\<lparr>gameState := (gameState app)\<lparr>enemies := map (enemyMove0 (gameState app) c) (enemies (gameState app)),
                                          player := fst (fold (enemyBlow0 (gameState app) c) (enemies (gameState app)) (player (gameState app), False))\<rparr>,
          isGameOver := (if hp (fst (fold (enemyBlow0 (gameState app) c) (enemies (gameState app)) (player (gameState app), False))) \<le> 0
                            \<and> hp (player (gameState app)) > 0 then True else isGameOver app),
          animating := False\<rparr>, \<lambda>n. c)"
  by (simp add: processEnemyTurn0_def enemiesMap0_const Let_def)

text \<open>
  \<^bold>\<open>C5\<close>, as claimed: every enemy decides against the positions before the turn, so
  the result does not depend on the order of the enemies and no enemy reacts to a move
  made in the same turn. \<^verbatim>\<open>processEnemyTurn\<close> of part_001 tests the destination
  against the list it is updating. With the player at (5,1), enemy 1 at (3,1) and enemy
  2 behind it at (2,1): when enemy 1 is first, it moves to (4,1) and enemy 2 follows
  onto the tile just left; when enemy 2 is first, it finds (3,1) taken and stays.
\<close>

theorem processEnemyTurn1_order_dependent:
  "(case processEnemyTurn1 (canPoison ex_tables) ex_rng (ex_pack [ex_enemy 1 3 1, ex_enemy 2 2 1]) of
      Inr (s, over, r) \<Rightarrow> map (\<lambda>e. (enemy_id e, pos_x e, pos_y e)) (enemies s) | Inl e \<Rightarrow> [])
     = [(1, 4, 1), (2, 3, 1)]
   \<and> (case processEnemyTurn1 (canPoison ex_tables) ex_rng (ex_pack [ex_enemy 2 2 1, ex_enemy 1 3 1]) of
      Inr (s, over, r) \<Rightarrow> map (\<lambda>e. (enemy_id e, pos_x e, pos_y e)) (enemies s) | Inl e \<Rightarrow> [])
     = [(2, 2, 1), (1, 4, 1)]"
  by (simp add: processEnemyTurn1_def enemyStep1_def ex_pack_def ex_tables_def ex_state_def
      ex_player_def ex_enemy_def ex_map_def ex_rng_def rowAt_def cellAt_def atPos_def Let_def)

text \<open>
  \<^bold>\<open>C5\<close>, amended to part_000. What the turn makes of an enemy does not depend on
  the player state accumulated so far, that is, on what the enemies before it did; and,
  when every random number drawn is the same \<open>c\<close>, the enemy list after the turn is
  the list before it with the function \<open>enemyMove0\<close> of the state before the turn
  applied to each enemy, so that listing the enemies in another order gives the same
  player, the same game-over flag and the same enemies up to that order.
\<close>

theorem processEnemyTurn0_order_independent:
  assumes "mset es' = mset es"
  shows "player (gameState (fst (processEnemyTurn0 (\<lambda>n. c) (app\<lparr>gameState := gs\<lparr>enemies := es'\<rparr>\<rparr>))))
          = player (gameState (fst (processEnemyTurn0 (\<lambda>n. c) (app\<lparr>gameState := gs\<lparr>enemies := es\<rparr>\<rparr>))))
     \<and> isGameOver (fst (processEnemyTurn0 (\<lambda>n. c) (app\<lparr>gameState := gs\<lparr>enemies := es'\<rparr>\<rparr>)))
          = isGameOver (fst (processEnemyTurn0 (\<lambda>n. c) (app\<lparr>gameState := gs\<lparr>enemies := es\<rparr>\<rparr>)))
     \<and> mset (enemies (gameState (fst (processEnemyTurn0 (\<lambda>n. c) (app\<lparr>gameState := gs\<lparr>enemies := es'\<rparr>\<rparr>)))))
          = mset (enemies (gameState (fst (processEnemyTurn0 (\<lambda>n. c) (app\<lparr>gameState := gs\<lparr>enemies := es\<rparr>\<rparr>)))))
     \<and> enemies (gameState (fst (processEnemyTurn0 (\<lambda>n. c) (app\<lparr>gameState := gs\<lparr>enemies := es\<rparr>\<rparr>))))
          = map (enemyMove0 (gs\<lparr>enemies := es\<rparr>) c) es
     \<and> fst (enemyStep0 prev e (p, h, r)) = fst (enemyStep0 prev e (p', h', r))"
proof -
  have s: "set es' = set es" using assms by (rule mset_eq_setD)
  have f: "fold (enemyBlow0 (gs\<lparr>enemies := es'\<rparr>) c) es' ph = fold (enemyBlow0 (gs\<lparr>enemies := es\<rparr>) c) es ph" for ph
  proof -
    have "enemyBlow0 (gs\<lparr>enemies := es'\<rparr>) c = enemyBlow0 gs c"
      and "enemyBlow0 (gs\<lparr>enemies := es\<rparr>) c = enemyBlow0 gs c"
      by (simp_all add: fun_eq_iff enemyBlow0_enemies)
    then show ?thesis using fold_enemyBlow0_perm [OF assms, of gs c ph] by simp
  qed
  have m: "mset (map (enemyMove0 (gs\<lparr>enemies := es'\<rparr>) c) es') = mset (map (enemyMove0 (gs\<lparr>enemies := es\<rparr>) c) es)"
  proof -
    have "enemyMove0 (gs\<lparr>enemies := es'\<rparr>) c = enemyMove0 (gs\<lparr>enemies := es\<rparr>) c"
      using enemyMove0_perm [OF s, of gs c] by (simp add: fun_eq_iff)
    then show ?thesis using assms by simp
  qed
  show ?thesis
    using f m enemyStep0_snapshot [of prev e p h r p' h']
    by (simp add: processEnemyTurn0_const)
qed

theorem processEnemyTurn0_order_independent_witness:
  "mset [ex_enemy 2 2 1, ex_enemy 1 3 1] = mset [ex_enemy 1 3 1, ex_enemy 2 2 1]
   \<and> player (gameState (fst (processEnemyTurn0 (\<lambda>n. 1 / 2) (ex_app\<lparr>gameState := ex_pack [ex_enemy 2 2 1, ex_enemy 1 3 1]\<rparr>))))
      = player (gameState (fst (processEnemyTurn0 (\<lambda>n. 1 / 2) (ex_app\<lparr>gameState := ex_pack [ex_enemy 1 3 1, ex_enemy 2 2 1]\<rparr>))))
   \<and> map (\<lambda>e. (enemy_id e, pos_x e, pos_y e))
        (enemies (gameState (fst (processEnemyTurn0 (\<lambda>n. 1 / 2) (ex_app\<lparr>gameState := ex_pack [ex_enemy 1 3 1, ex_enemy 2 2 1]\<rparr>)))))
      = [(1, 4, 1), (2, 2, 1)]
   \<and> map (\<lambda>e. (enemy_id e, pos_x e, pos_y e))
        (enemies (gameState (fst (processEnemyTurn0 (\<lambda>n. 1 / 2) (ex_app\<lparr>gameState := ex_pack [ex_enemy 2 2 1, ex_enemy 1 3 1]\<rparr>)))))
      = [(2, 2, 1), (1, 4, 1)]"
proof -
  have a: "mset [ex_enemy 2 2 1, ex_enemy 1 3 1] = mset [ex_enemy 1 3 1, ex_enemy 2 2 1]"
    by (simp add: add.commute)
  have p: "ex_pack es = (ex_pack [])\<lparr>enemies := es\<rparr>" for es
    by (simp add: ex_pack_def)
  from processEnemyTurn0_order_independent [OF a, where c = "1 / 2" and app = ex_app and gs = "ex_pack []"]
  have "player (gameState (fst (processEnemyTurn0 (\<lambda>n. 1 / 2) (ex_app\<lparr>gameState := ex_pack [ex_enemy 2 2 1, ex_enemy 1 3 1]\<rparr>))))
      = player (gameState (fst (processEnemyTurn0 (\<lambda>n. 1 / 2) (ex_app\<lparr>gameState := ex_pack [ex_enemy 1 3 1, ex_enemy 2 2 1]\<rparr>))))"
    by (simp add: p [symmetric])
  moreover have "map (\<lambda>e. (enemy_id e, pos_x e, pos_y e))
        (enemies (gameState (fst (processEnemyTurn0 (\<lambda>n. 1 / 2) (ex_app\<lparr>gameState := ex_pack [ex_enemy 1 3 1, ex_enemy 2 2 1]\<rparr>)))))
      = [(1, 4, 1), (2, 2, 1)]"
    by (simp add: processEnemyTurn0_def enemyStep0_def enemyAdvance0_def chase0_def ex_pack_def
        ex_app_def ex_state_def ex_player_def ex_enemy_def ex_map_def tileAt_def rowAt_def cellAt_def
        VIEWPORT_WIDTH_def VIEWPORT_HEIGHT_def Let_def)
  moreover have "map (\<lambda>e. (enemy_id e, pos_x e, pos_y e))
        (enemies (gameState (fst (processEnemyTurn0 (\<lambda>n. 1 / 2) (ex_app\<lparr>gameState := ex_pack [ex_enemy 2 2 1, ex_enemy 1 3 1]\<rparr>)))))
      = [(2, 2, 1), (1, 4, 1)]"
    by (simp add: processEnemyTurn0_def enemyStep0_def enemyAdvance0_def chase0_def ex_pack_def
        ex_app_def ex_state_def ex_player_def ex_enemy_def ex_map_def tileAt_def rowAt_def cellAt_def
        VIEWPORT_WIDTH_def VIEWPORT_HEIGHT_def Let_def)
  ultimately show ?thesis using a by simp
qed

subsection \<open>Fuses\<close>




























































text \<open>An arrow of part_001 in flight does not lock the moves once its first tick has
  run, and the tick that ends the flight commits the turn of the state its effect was
  created in. The knight shoots, the arrow moves one tile, the knight steps to the
  right (the bomb with one step left explodes in that turn and leaves the list), and
  the arrow reaches the wall: the tick still holds the state before the step, so the
  turn it runs explodes the same bomb again, and the state it commits has the knight
  back on the tile he left. A sequence of moves as the property below takes it has no
  flight in it.\<close>

lemma arrowTick1_stale_closure:
  "(let shot = fireArrow1 ex_fused;
        flying = (case arrowTick1 ex_tables (gameState shot) (the (arrowProjectile shot)) ex_rng shot of
                    Inr a \<Rightarrow> a | Inl l \<Rightarrow> shot);
        moved = (case handleMove1 ex_tables (\<lambda>l. ex_state) ArrowRight ex_rng flying of
                   Inr (a, r) \<Rightarrow> a | Inl e \<Rightarrow> flying);
        landed = (case arrowTick1 ex_tables (gameState flying) (the (arrowProjectile flying)) ex_rng moved of
                    Inl (Inr (a, r)) \<Rightarrow> a | _ \<Rightarrow> moved)
    in gs_bombs (gameState flying) = [ex_bomb 1]
       \<and> pos_x (player (gameState flying)) = 4
       \<and> \<not> animating flying
       \<and> (case turnOf1 ex_tables ArrowRight ex_rng flying of
             Some (Inr res) \<Rightarrow> exploded1 res = [ex_bomb 1] | _ \<Rightarrow> False)
       \<and> pos_x (player (gameState moved)) = 5
       \<and> gs_bombs (gameState moved) = []
       \<and> arrowProjectile moved = arrowProjectile flying
       \<and> gs_map (gameState moved) = gs_map (gameState flying)
       \<and> (case processTurn1 (canPoison ex_tables) 4 1 ex_rng (gameState flying) of
             Inr res \<Rightarrow> exploded1 res = [ex_bomb 1] | Inl e \<Rightarrow> False)
       \<and> pos_x (player (gameState landed)) = 4
       \<and> gs_bombs (gameState landed) = []
       \<and> arrowProjectile landed = None)"
  by code_simp




end
